theory Spec2Isabelle
  imports Complex_Main
begin

section \<open>Checkpoint records and the file store\<close>

text \<open>
  The two workers, \<^verbatim>\<open>examples/classifier_mnist/main.py\<close> and
  \<^verbatim>\<open>examples/classifier_imagenet/main.py\<close>, persist their progress as a dictionary
  with five entries. Model parameters and optimiser state are opaque to the workers; they
  are byte strings here. Accuracies are Python floats; they are real numbers here, so that
  the comparison and the maximum of the source are those of a linear order (no NaN).
\<close>

type_synonym path = string
type_synonym blob = "nat list"

record checkpoint =
  ck_epoch :: int
  ck_arch :: string
  ck_state_dict :: blob
  ck_best_acc1 :: real
  ck_optimizer :: blob

text \<open>
  What a path holds on disk: a complete checkpoint dictionary, a bare state dictionary
  (the weights-only file of line 197 of the MNIST worker), or a file that has been
  opened for writing and whose payload is not completely there.
\<close>

datatype content = Torn | Checkpoint checkpoint | Weights blob

datatype error =
  SameFileError | FileNotFoundError | UnpicklingError | KeyError | AssertionError
  | ZeroDivisionError

type_synonym fs = "path \<rightharpoonup> content"

text \<open>
  The library calls of the source act on the disk in primitive steps, and the process
  can stop between any two of them. \<^verbatim>\<open>torch.save(obj, f)\<close> opens \<^verbatim>\<open>f\<close> for writing, which
  creates or empties it, and then writes the payload. \<^verbatim>\<open>shutil.copyfile(src, dst)\<close>
  refuses to copy a file onto itself, opens \<^verbatim>\<open>src\<close> for reading and \<^verbatim>\<open>dst\<close> for writing,
  and then copies the payload.
\<close>

datatype fsop =
  Truncate path
  | Store path content
  | CopyOpen path path
  | CopyData path path

fun fs_step :: "fsop \<Rightarrow> fs \<Rightarrow> error + fs" where
  "fs_step (Truncate p) fs = Inr (fs(p \<mapsto> Torn))"
| "fs_step (Store p c) fs = Inr (fs(p \<mapsto> c))"
| "fs_step (CopyOpen src dst) fs =
     (if src = dst then Inl SameFileError
      else case fs src of None \<Rightarrow> Inl FileNotFoundError
           | Some c \<Rightarrow> Inr (fs(dst \<mapsto> Torn)))"
| "fs_step (CopyData src dst) fs =
     (case fs src of None \<Rightarrow> Inl FileNotFoundError
      | Some c \<Rightarrow> Inr (fs(dst \<mapsto> c)))"

fun run_ops :: "fsop list \<Rightarrow> fs \<Rightarrow> error + fs" where
  "run_ops [] fs = Inr fs"
| "run_ops (x # xs) fs =
     (case fs_step x fs of Inl e \<Rightarrow> Inl e | Inr fs' \<Rightarrow> run_ops xs fs')"

definition torch_save :: "content \<Rightarrow> path \<Rightarrow> fsop list" where
  "torch_save obj f = [Truncate f, Store f obj]"

definition copyfile :: "path \<Rightarrow> path \<Rightarrow> fsop list" where
  "copyfile src dst = [CopyOpen src dst, CopyData src dst]"

definition isfile :: "fs \<Rightarrow> path \<Rightarrow> bool" where
  "isfile fs p = (fs p \<noteq> None)"

definition torch_load :: "fs \<Rightarrow> path \<Rightarrow> error + content" where
  "torch_load fs p =
     (case fs p of None \<Rightarrow> Inl FileNotFoundError
      | Some Torn \<Rightarrow> Inl UnpicklingError
      | Some c \<Rightarrow> Inr c)"

text \<open>The paths opened for writing by a sequence of steps.\<close>

fun written :: "fsop list \<Rightarrow> path list" where
  "written [] = []"
| "written (Truncate p # xs) = p # written xs"
| "written (CopyOpen src dst # xs) = dst # written xs"
| "written (x # xs) = written xs"

subsection \<open>\<^verbatim>\<open>save_checkpoint\<close> (MNIST worker, lines 291-294)\<close>

text \<open>
  \<^verbatim>\<open>
  def save_checkpoint(state, is_best, prefix, filename='checkpoint.pth.tar'):
      torch.save(state, prefix + filename)
      if is_best:
          shutil.copyfile(prefix + filename, prefix + 'best.pth.tar')
  \<close>
  The function is the sequence of disk steps it performs.
\<close>

definition save_checkpoint :: "checkpoint \<Rightarrow> bool \<Rightarrow> string \<Rightarrow> string \<Rightarrow> fsop list" where
  "save_checkpoint state is_best prefix filename =
     torch_save (Checkpoint state) (prefix @ filename) @
     (if is_best then copyfile (prefix @ filename) (prefix @ ''best.pth.tar'') else [])"

definition default_filename :: string where
  "default_filename = ''checkpoint.pth.tar''"

section \<open>The worker: arguments, globals, collaborators and the call trace\<close>

text \<open>Console messages the claims refer to; the other \<^verbatim>\<open>print\<close> calls are not recorded.\<close>

datatype message =
  NotSupported string
  | LoadingCheckpoint path
  | LoadedCheckpoint path int real
  | SaveOnlyWeights string
  | NoCheckpointFound path
  | EarlyStopEvaluation
  | ValProgress nat nat "real option" "real option"
  | ValAcc1 "real option"

text \<open>
  The calls a worker makes, in the order it makes them. \<open>Train e l q\<close> is the call of
  \<^verbatim>\<open>train\<close> for epoch \<open>e\<close>, made when the learning-rate scheduler has been stepped \<open>l\<close> times
  and the bit-width scheduler \<open>q\<close> times since they were constructed. \<open>Forward i\<close> is the
  forward pass of \<^verbatim>\<open>validate\<close> on batch \<open>i\<close>.
\<close>

datatype event =
  Print message
  | InitProcessGroup
  | GenKeyMap
  | SaveInnerHooks
  | GetModelInfo
  | SchedulerStep
  | DnqStep
  | SetEpoch int
  | Train int nat nat
  | Validate
  | Forward nat
  | AddScalar string real int
  | SaveCheckpoint checkpoint bool string
  | WriterClose

text \<open>
  One record holds what a worker reads and assigns: the fields of \<^verbatim>\<open>args\<close> that decide
  the control flow, the module global \<^verbatim>\<open>best_acc1\<close>, the locals (model parameters, optimiser
  state, whether \<^verbatim>\<open>writer\<close> is an object or \<^verbatim>\<open>None\<close>), the number of times each scheduler
  has been stepped, the disk, and the trace of calls made so far.
\<close>

record worker =
  arch :: string
  gen_map :: bool
  original_model :: string
  resume :: string
  resume_after :: string
  quant_bias_scale :: bool
  bn_fusion :: bool
  extract_inner_data :: bool
  evaluate :: bool
  start_epoch :: int
  epochs :: int
  log_name :: string
  qw :: int
  qa :: int
  distributed :: bool
  debug :: bool
  best_acc1 :: real
  model :: blob
  optim :: blob
  has_writer :: bool
  lr_steps :: nat
  dnq_steps :: nat
  files :: fs
  trace :: "event list"

text \<open>
  The collaborators are parameters: the model zoos (a missing name is Python's
  \<^verbatim>\<open>KeyError\<close>), a fresh optimiser state, one training pass (a function of the epoch, of
  the two schedule positions and of model and optimiser), the validation accuracies of a
  model snapshot under a bit-width schedule position, the two model rewrites of
  \<^verbatim>\<open>utils.wrapper\<close>, the learning rate the optimiser holds after a number of scheduler
  steps, and the helpers of \<^verbatim>\<open>examples/__init__.py\<close> that the ImageNet worker calls and
  that are not part of the two files: \<^verbatim>\<open>process_model\<close> (which may replace model, optimiser
  and \<^verbatim>\<open>args.start_epoch\<close>), \<^verbatim>\<open>get_summary_writer\<close> (whether it returns a writer) and the
  bit-width of the first \<^verbatim>\<open>Conv2dDNQ\<close> module. Collaborators are assumed to return.
\<close>

record env =
  mnist_models :: "string \<rightharpoonup> blob"
  tv_models :: "string \<rightharpoonup> blob"
  extra_models :: "string \<rightharpoonup> blob"
  init_optim :: blob
  train_fn :: "int \<Rightarrow> nat \<times> nat \<Rightarrow> blob \<times> blob \<Rightarrow> blob \<times> blob"
  val_acc1 :: "nat \<Rightarrow> blob \<Rightarrow> real"
  val_acc5 :: "nat \<Rightarrow> blob \<Rightarrow> real"
  fuse_bn :: "blob \<Rightarrow> blob"
  quantize_scale_and_bias :: "blob \<Rightarrow> blob"
  lr_at :: "nat \<Rightarrow> real"
  process_model :: "blob \<Rightarrow> blob \<Rightarrow> int \<Rightarrow> blob \<times> blob \<times> int"
  get_summary_writer :: bool
  dnq_nbits :: "blob \<Rightarrow> int option"

definition emit :: "event \<Rightarrow> worker \<Rightarrow> worker" where
  "emit ev s = s\<lparr>trace := trace s @ [ev]\<rparr>"

text \<open>Python's \<^verbatim>\<open>max(a, b)\<close> keeps \<^verbatim>\<open>a\<close> unless \<^verbatim>\<open>b > a\<close>.\<close>

definition py_max :: "real \<Rightarrow> real \<Rightarrow> real" where
  "py_max a b = (if b > a then b else a)"

text \<open>\<^verbatim>\<open>range(a, b)\<close> over Python's integers.\<close>

definition py_range :: "int \<Rightarrow> int \<Rightarrow> int list" where
  "py_range a b = [a..b - 1]"

text \<open>A \<^verbatim>\<open>for\<close> loop whose body may raise: the first exception ends the loop.\<close>

fun for_each :: "('a \<Rightarrow> worker \<Rightarrow> error + worker) \<Rightarrow> 'a list \<Rightarrow> worker \<Rightarrow> error + worker" where
  "for_each body [] s = Inr s"
| "for_each body (x # xs) s =
     (case body x s of Inl e \<Rightarrow> Inl e | Inr s' \<Rightarrow> for_each body xs s')"

definition and_then :: "error + worker \<Rightarrow> (worker \<Rightarrow> error + worker) \<Rightarrow> error + worker" where
  "and_then r f = (case r of Inl e \<Rightarrow> Inl e | Inr s \<Rightarrow> f s)"

text \<open>Running disk steps inside a worker.\<close>

definition on_disk :: "fsop list \<Rightarrow> worker \<Rightarrow> error + worker" where
  "on_disk ops s =
     (case run_ops ops (files s) of Inl e \<Rightarrow> Inl e | Inr fs' \<Rightarrow> Inr (s\<lparr>files := fs'\<rparr>))"

section \<open>The MNIST worker\<close>

subsection \<open>Resuming (lines 183-201)\<close>

text \<open>
  \<^verbatim>\<open>
  if args.resume:
      if os.path.isfile(args.resume):
          checkpoint = torch.load(args.resume, map_location='cpu')
          model.load_state_dict(checkpoint['state_dict'])
          if not args.quant_bias_scale:
              args.start_epoch = checkpoint['epoch']
              best_acc1 = checkpoint['best_acc1']
              optimizer.load_state_dict(checkpoint['optimizer'])
              torch.save(model.state_dict(), '{}.pth'.format(args.arch))
      else:
          print("=> no checkpoint found at '{}'".format(args.resume))
  \<close>
  A file that \<^verbatim>\<open>torch.load\<close> cannot read raises; a weights-only file has no entry
  \<^verbatim>\<open>'state_dict'\<close>.
\<close>

definition restore :: "checkpoint \<Rightarrow> worker \<Rightarrow> error + worker" where
  "restore ck s =
     (let s1 = s\<lparr>model := ck_state_dict ck\<rparr> in
      if \<not> quant_bias_scale s1 then
        (let s2 = s1\<lparr>start_epoch := ck_epoch ck, best_acc1 := ck_best_acc1 ck,
                      optim := ck_optimizer ck\<rparr>;
             s3 = emit (Print (LoadedCheckpoint (resume s2) (ck_epoch ck) (best_acc1 s2))) s2;
             s4 = emit (Print (SaveOnlyWeights (arch s3))) s3
         in on_disk (torch_save (Weights (model s4)) (arch s4 @ ''.pth'')) s4)
      else Inr s1)"

definition resume_block :: "worker \<Rightarrow> error + worker" where
  "resume_block s =
     (if resume s \<noteq> [] then
        (if isfile (files s) (resume s) then
           (let s1 = emit (Print (LoadingCheckpoint (resume s))) s in
            case torch_load (files s1) (resume s1) of
              Inl e \<Rightarrow> Inl e
            | Inr Torn \<Rightarrow> Inl UnpicklingError
            | Inr (Weights w) \<Rightarrow> Inl KeyError
            | Inr (Checkpoint ck) \<Rightarrow> restore ck s1)
         else Inr (emit (Print (NoCheckpointFound (resume s))) s))
      else Inr s)"

subsection \<open>Model rewrites, second resume, inner-data hooks (lines 203-229)\<close>

definition fusion_block :: "env \<Rightarrow> worker \<Rightarrow> worker" where
  "fusion_block env s =
     (let s1 = (if bn_fusion s then s\<lparr>model := fuse_bn env (model s)\<rparr> else s) in
      if quant_bias_scale s1 then s1\<lparr>model := quantize_scale_and_bias env (model s1)\<rparr>
      else s1)"

text \<open>The \<^verbatim>\<open>else\<close> branch of the source prints \<^verbatim>\<open>args.resume\<close>, not \<^verbatim>\<open>args.resume_after\<close>.\<close>

definition resume_after_block :: "worker \<Rightarrow> error + worker" where
  "resume_after_block s =
     (if resume_after s \<noteq> [] then
        (if isfile (files s) (resume_after s) then
           (let s1 = emit (Print (LoadingCheckpoint (resume_after s))) s in
            case torch_load (files s1) (resume_after s1) of
              Inl e \<Rightarrow> Inl e
            | Inr Torn \<Rightarrow> Inl UnpicklingError
            | Inr (Weights w) \<Rightarrow> Inl KeyError
            | Inr (Checkpoint ck) \<Rightarrow> Inr (s1\<lparr>model := ck_state_dict ck\<rparr>))
         else Inr (emit (Print (NoCheckpointFound (resume s))) s))
      else Inr s)"

definition extract_block :: "worker \<Rightarrow> worker" where
  "extract_block s = (if extract_inner_data s then emit SaveInnerHooks s else s)"

subsection \<open>One epoch (lines 268-288)\<close>

text \<open>
  \<^verbatim>\<open>
  scheduler_warmup.step()
  train(train_loader, model, criterion, optimizer, epoch, args, writer)
  acc1 = validate(val_loader, model, criterion, args)
  writer.add_scalar('val/acc1', acc1, epoch)
  writer.add_scalar('train/lr', optimizer.param_groups[0]['lr'], epoch)
  is_best = acc1 > best_acc1
  best_acc1 = max(acc1, best_acc1)
  save_checkpoint({'epoch': epoch + 1, 'arch': args.arch,
                   'state_dict': model.state_dict(), 'best_acc1': best_acc1,
                   'optimizer': optimizer.state_dict()},
                  is_best, prefix='{}/{}_'.format(args.log_name, args.arch))
  \<close>
  The call of \<^verbatim>\<open>train\<close> (lines 332-377) is the event \<open>Train\<close>, and what the pass leaves in
  model and optimiser is the collaborator \<open>train_fn\<close>. The call of \<^verbatim>\<open>validate\<close> is the
  event \<open>Validate\<close> and the number it returns the collaborator \<open>val_acc1\<close>; the function
  itself is modelled further down. The MNIST worker has no bit-width schedule, whose
  position is 0 throughout. The DALI branch (lines 272-273) is not modelled.
\<close>

definition scheduler_step :: "worker \<Rightarrow> worker" where
  "scheduler_step s = emit SchedulerStep (s\<lparr>lr_steps := Suc (lr_steps s)\<rparr>)"

definition train :: "env \<Rightarrow> int \<Rightarrow> worker \<Rightarrow> worker" where
  "train env epoch s =
     (let r = train_fn env epoch (lr_steps s, dnq_steps s) (model s, optim s) in
      emit (Train epoch (lr_steps s) (dnq_steps s)) (s\<lparr>model := fst r, optim := snd r\<rparr>))"

definition snapshot :: "int \<Rightarrow> worker \<Rightarrow> checkpoint" where
  "snapshot epoch s =
     \<lparr>ck_epoch = epoch + 1, ck_arch = arch s, ck_state_dict = model s,
      ck_best_acc1 = best_acc1 s, ck_optimizer = optim s\<rparr>"

definition mnist_prefix :: "worker \<Rightarrow> string" where
  "mnist_prefix s = log_name s @ ''/'' @ arch s @ ''_''"

definition mnist_epoch :: "env \<Rightarrow> int \<Rightarrow> worker \<Rightarrow> error + worker" where
  "mnist_epoch env epoch s =
     (let s1 = scheduler_step s;
          s2 = train env epoch s1;
          acc1 = val_acc1 env (dnq_steps s2) (model s2);
          s3 = emit Validate s2;
          s4 = emit (AddScalar ''val/acc1'' acc1 epoch) s3;
          s5 = emit (AddScalar ''train/lr'' (lr_at env (lr_steps s4)) epoch) s4;
          is_best = (acc1 > best_acc1 s5);
          s6 = s5\<lparr>best_acc1 := py_max acc1 (best_acc1 s5)\<rparr>;
          state = snapshot epoch s6;
          prefix = mnist_prefix s6;
          s7 = emit (SaveCheckpoint state is_best prefix) s6
      in on_disk (save_checkpoint state is_best prefix default_filename) s7)"

subsection \<open>\<^verbatim>\<open>main_worker\<close> (lines 131-288)\<close>

text \<open>
  Device placement, data loading and the construction of criterion and schedulers have
  no effect on what is modelled, apart from the fresh optimiser and the fresh scheduler
  (stepped 0 times). The key map of line 159 and the text file of line 265 are not
  checkpoint files and are not put on the modelled disk.
\<close>

definition mnist_training :: "env \<Rightarrow> worker \<Rightarrow> error + worker" where
  "mnist_training env s =
     (let s1 = s\<lparr>log_name := ''logger/'' @ arch s @ ''_'' @ log_name s\<rparr> in
      for_each (mnist_epoch env) (py_range (start_epoch s1) (epochs s1)) s1)"

definition mnist_main_worker :: "env \<Rightarrow> worker \<Rightarrow> error + worker" where
  "mnist_main_worker env s0 =
     (let s = (if gen_map s0 then s0\<lparr>qw := - 1, qa := - 1\<rparr> else s0) in
      case mnist_models env (arch s) of
        None \<Rightarrow> Inr (emit (Print (NotSupported (arch s))) s)
      | Some m \<Rightarrow>
          (let s1 = s\<lparr>model := m\<rparr> in
           if gen_map s1 then
             (if mnist_models env (original_model s1) \<noteq> None then Inr (emit GenKeyMap s1)
              else Inl AssertionError)
           else
             and_then (resume_block (s1\<lparr>optim := init_optim env\<rparr>)) (\<lambda>s2.
             and_then (resume_after_block (fusion_block env s2)) (\<lambda>s3.
               (let s4 = (extract_block s3)\<lparr>lr_steps := 0, dnq_steps := 0\<rparr> in
                if evaluate s4 then Inr (emit Validate s4)
                else mnist_training env s4)))))"

subsection \<open>\<^verbatim>\<open>validate\<close> (lines 297-325)\<close>

text \<open>
  A batch is what the forward pass, the criterion and \<^verbatim>\<open>accuracy\<close> make of it: a loss, a
  top-1 accuracy and a size. \<^verbatim>\<open>AverageValueMeter\<close> keeps a sum and a count; its mean is
  the quotient, and NaN (\<open>None\<close>) while the count is 0.
  \<^verbatim>\<open>
  for i, (input, target) in enumerate(val_loader):
      output = model(input)
      losses.add(loss.item(), input.size(0))
      top1.add(acc1[0].item() * input.size(0), input.size(0))
      if args.extract_inner_data:
          print('early stop evaluation')
          break
      if i % args.print_freq == 0:
          print('[{}/{}] Loss: {:.4f} Acc: {:.2f}'.format(i, len(val_loader), losses.mean, top1.mean))
  print('acc1: {:.4f}'.format(top1.mean))
  return top1.mean
  \<close>
\<close>

record batch =
  b_loss :: real
  b_acc :: real
  b_size :: nat

record meter =
  m_sum :: real
  m_n :: nat

definition new_meter :: meter where
  "new_meter = \<lparr>m_sum = 0, m_n = 0\<rparr>"

definition meter_add :: "real \<Rightarrow> nat \<Rightarrow> meter \<Rightarrow> meter" where
  "meter_add v n m = \<lparr>m_sum = m_sum m + v, m_n = m_n m + n\<rparr>"

definition meter_mean :: "meter \<Rightarrow> real option" where
  "meter_mean m = (if m_n m = 0 then None else Some (m_sum m / real (m_n m)))"

record vstate =
  top1 :: meter
  losses :: meter
  out :: "event list"

fun validate_loop ::
  "bool \<Rightarrow> int \<Rightarrow> nat \<Rightarrow> nat \<Rightarrow> batch list \<Rightarrow> vstate \<Rightarrow> error + vstate" where
  "validate_loop early print_freq len i [] v = Inr v"
| "validate_loop early print_freq len i (b # bs) v =
     (let v1 = v\<lparr>out := out v @ [Forward i]\<rparr>;
          v2 = v1\<lparr>losses := meter_add (b_loss b) (b_size b) (losses v1)\<rparr>;
          v3 = v2\<lparr>top1 := meter_add (b_acc b * real (b_size b)) (b_size b) (top1 v2)\<rparr>
      in if early then Inr (v3\<lparr>out := out v3 @ [Print EarlyStopEvaluation]\<rparr>)
         else if print_freq = 0 then Inl ZeroDivisionError
         else if int i mod print_freq = 0 then
           validate_loop early print_freq len (Suc i) bs
             (v3\<lparr>out := out v3 @
                [Print (ValProgress i len (meter_mean (losses v3)) (meter_mean (top1 v3)))]\<rparr>)
         else validate_loop early print_freq len (Suc i) bs v3)"

definition validate :: "batch list \<Rightarrow> bool \<Rightarrow> int \<Rightarrow> error + (event list \<times> real option)" where
  "validate val_loader early print_freq =
     (case validate_loop early print_freq (length val_loader) 0 val_loader
             \<lparr>top1 = new_meter, losses = new_meter, out = []\<rparr> of
        Inl e \<Rightarrow> Inl e
      | Inr v \<Rightarrow> Inr (out v @ [Print (ValAcc1 (meter_mean (top1 v)))], meter_mean (top1 v)))"

section \<open>The ImageNet worker\<close>

text \<open>Python's \<^verbatim>\<open>str\<close> of an integer, for the \<^verbatim>\<open>w{}a{}\<close> part of the checkpoint prefix.\<close>

fun str_nat :: "nat \<Rightarrow> string" where
  "str_nat n =
     (if n < 10 then [''0123456789'' ! n]
      else str_nat (n div 10) @ [''0123456789'' ! (n mod 10)])"

definition str_int :: "int \<Rightarrow> string" where
  "str_int i = (if i < 0 then ''-'' @ str_nat (nat (- i)) else str_nat (nat i))"

definition imagenet_prefix :: "worker \<Rightarrow> string" where
  "imagenet_prefix s =
     log_name s @ ''/'' @ arch s @ ''_w'' @ str_int (qw s) @ ''a'' @ str_int (qa s)"

subsection \<open>One epoch (lines 138-166)\<close>

text \<open>
  \<^verbatim>\<open>
  if args.distributed:
      train_sampler.set_epoch(epoch)
  train(train_loader, model, criterion, optimizer, epoch, args, writer)
  scheduler.step()
  dnq_scheduler.step()
  acc1, acc5 = validate(val_loader, model, criterion, args)
  if writer is not None:
      writer.add_scalar('val/acc1', acc1, epoch)
      writer.add_scalar('val/acc5', acc5, epoch)
      if args.debug: ... writer.add_scalar('val/nbits', module.nbits, epoch)
  is_best = acc1 > best_acc1
  best_acc1 = max(acc1, best_acc1)
  if writer is not None:
      save_checkpoint({...}, is_best, prefix='{}/{}_w{}a{}'.format(...))
  \<close>
  \<^verbatim>\<open>train\<close>, \<^verbatim>\<open>validate\<close> and \<^verbatim>\<open>save_checkpoint\<close> come from \<^verbatim>\<open>examples/__init__.py\<close> here;
  the worker's calls of them are recorded, with their arguments.
\<close>

definition dnq_step :: "worker \<Rightarrow> worker" where
  "dnq_step s = emit DnqStep (s\<lparr>dnq_steps := Suc (dnq_steps s)\<rparr>)"

definition log_validation :: "env \<Rightarrow> int \<Rightarrow> real \<Rightarrow> real \<Rightarrow> worker \<Rightarrow> worker" where
  "log_validation env epoch acc1 acc5 s =
     (if has_writer s then
        (let s1 = emit (AddScalar ''val/acc1'' acc1 epoch) s;
             s2 = emit (AddScalar ''val/acc5'' acc5 epoch) s1
         in if debug s2 then
              (case dnq_nbits env (model s2) of
                 None \<Rightarrow> s2
               | Some n \<Rightarrow> emit (AddScalar ''val/nbits'' (real_of_int n) epoch) s2)
            else s2)
      else s)"

definition imagenet_epoch :: "env \<Rightarrow> int \<Rightarrow> worker \<Rightarrow> worker" where
  "imagenet_epoch env epoch s =
     (let s1 = (if distributed s then emit (SetEpoch epoch) s else s);
          s2 = train env epoch s1;
          s3 = scheduler_step s2;
          s4 = dnq_step s3;
          acc1 = val_acc1 env (dnq_steps s4) (model s4);
          acc5 = val_acc5 env (dnq_steps s4) (model s4);
          s5 = emit Validate s4;
          s6 = log_validation env epoch acc1 acc5 s5;
          is_best = (acc1 > best_acc1 s6);
          s7 = s6\<lparr>best_acc1 := py_max acc1 (best_acc1 s6)\<rparr>
      in if has_writer s7 then
           emit (SaveCheckpoint (snapshot epoch s7) is_best (imagenet_prefix s7)) s7
         else s7)"

subsection \<open>\<^verbatim>\<open>main_worker\<close> (lines 62-168)\<close>

text \<open>
  \<^verbatim>\<open>
  for epoch in range(0, args.start_epoch):
      scheduler.step()
      pass
  for epoch in range(args.start_epoch, args.epochs):
      ...
  if writer is not None:
      writer.close()
  \<close>
  The rank arithmetic and the process group of lines 66-77 are the single event
  \<open>InitProcessGroup\<close>.
\<close>

definition skip_ahead :: "worker \<Rightarrow> worker" where
  "skip_ahead s = fold (\<lambda>epoch. scheduler_step) (py_range 0 (start_epoch s)) s"

definition imagenet_training :: "env \<Rightarrow> worker \<Rightarrow> worker" where
  "imagenet_training env s =
     (let s1 = skip_ahead s;
          s2 = fold (imagenet_epoch env) (py_range (start_epoch s1) (epochs s1)) s1
      in if has_writer s2 then emit WriterClose s2 else s2)"

definition create_model :: "env \<Rightarrow> worker \<Rightarrow> error + worker" where
  "create_model env s =
     (case tv_models env (arch s) of
        Some m \<Rightarrow> Inr (s\<lparr>model := m, qw := - 1, qa := - 1\<rparr>)
      | None \<Rightarrow>
          (case extra_models env (arch s) of
             None \<Rightarrow> Inl KeyError
           | Some m \<Rightarrow> Inr (s\<lparr>model := m\<rparr>)))"

definition prepare :: "env \<Rightarrow> worker \<Rightarrow> worker" where
  "prepare env s =
     (let r = process_model env (model s) (init_optim env) (start_epoch s);
          s1 = s\<lparr>model := fst r, optim := fst (snd r), start_epoch := snd (snd r)\<rparr>;
          s2 = s1\<lparr>has_writer := get_summary_writer env\<rparr>;
          s3 = (if ((qw s2 \<le> 0 \<and> qa s2 \<le> 0) \<or> evaluate s2) \<and> has_writer s2
                then emit GetModelInfo s2 else s2)
      in s3\<lparr>lr_steps := 0, dnq_steps := 0\<rparr>)"

definition imagenet_main_worker :: "env \<Rightarrow> worker \<Rightarrow> error + worker" where
  "imagenet_main_worker env s0 =
     (let s = (if distributed s0 then emit InitProcessGroup s0 else s0);
          s1 = (if gen_map s then s\<lparr>qw := - 1, qa := - 1\<rparr> else s)
      in and_then (create_model env s1) (\<lambda>s2.
           if gen_map s2 then Inr (emit GenKeyMap s2)
           else
             (let s3 = prepare env s2 in
              if evaluate s3 then Inr (emit Validate s3)
              else Inr (imagenet_training env s3))))"

section \<open>Reading a trace\<close>

text \<open>The calls of \<^verbatim>\<open>save_checkpoint\<close> in a trace, with their arguments, in order.\<close>

definition saves :: "event list \<Rightarrow> (checkpoint \<times> bool \<times> string) list" where
  "saves evs =
     concat (map (\<lambda>ev. case ev of SaveCheckpoint c b p \<Rightarrow> [(c, b, p)] | _ \<Rightarrow> []) evs)"

text \<open>The records saved with \<^verbatim>\<open>is_best\<close> true: those that are copied to the best file.\<close>

definition best_writes :: "event list \<Rightarrow> checkpoint list" where
  "best_writes evs = map fst (filter (\<lambda>x. fst (snd x)) (saves evs))"

text \<open>The calls of \<^verbatim>\<open>train\<close>: epoch, and the position of each schedule at the call.\<close>

definition trains :: "event list \<Rightarrow> (int \<times> nat \<times> nat) list" where
  "trains evs = concat (map (\<lambda>ev. case ev of Train e l q \<Rightarrow> [(e, l, q)] | _ \<Rightarrow> []) evs)"

definition train_lr :: "event list \<Rightarrow> (int \<times> nat) list" where
  "train_lr evs = map (\<lambda>x. (fst x, fst (snd x))) (trains evs)"

definition trained_epochs :: "event list \<Rightarrow> int list" where
  "trained_epochs evs = map fst (trains evs)"

text \<open>
  The calls that train, advance a schedule, validate or save: what is left of a trace
  when console output, metric writes and set-up calls are dropped.
\<close>

definition is_core :: "event \<Rightarrow> bool" where
  "is_core ev =
     (case ev of Train e l q \<Rightarrow> True | SchedulerStep \<Rightarrow> True | DnqStep \<Rightarrow> True
      | Validate \<Rightarrow> True | SaveCheckpoint c b p \<Rightarrow> True | _ \<Rightarrow> False)"

definition core :: "event list \<Rightarrow> event list" where
  "core evs = filter is_core evs"

section \<open>A small run to evaluate\<close>

text \<open>
  A zoo with one architecture; a training pass that leaves the epoch number as the only
  parameter; a model that scores 70 after epochs 0 and 2 and 68 after any other epoch; a
  \<^verbatim>\<open>process_model\<close> that changes nothing.
\<close>

definition demo_env :: env where
  "demo_env =
     \<lparr>mnist_models = [''lenet'' \<mapsto> []],
      tv_models = Map.empty,
      extra_models = [''lenet'' \<mapsto> []],
      init_optim = [],
      train_fn = (\<lambda>epoch pos mo. ([nat epoch], snd mo)),
      val_acc1 = (\<lambda>q m. if m = [0] \<or> m = [2] then 70 else 68),
      val_acc5 = (\<lambda>q m. 90),
      fuse_bn = (\<lambda>m. m),
      quantize_scale_and_bias = (\<lambda>m. m),
      lr_at = (\<lambda>k. 1),
      process_model = (\<lambda>m opt e. (m, opt, e)),
      get_summary_writer = True,
      dnq_nbits = (\<lambda>m. None)\<rparr>"

definition demo_worker :: worker where
  "demo_worker =
     \<lparr>arch = ''lenet'', gen_map = False, original_model = [], resume = [],
      resume_after = [], quant_bias_scale = False, bn_fusion = False,
      extract_inner_data = False, evaluate = False, start_epoch = 0, epochs = 2,
      log_name = ''log'', qw = 4, qa = 4, distributed = False, debug = False,
      best_acc1 = 0, model = [], optim = [], has_writer = False, lr_steps = 0,
      dnq_steps = 0, files = Map.empty, trace = []\<rparr>"

text \<open>What a run that returns lets one observe; an exception is passed on.\<close>

definition observe :: "(worker \<Rightarrow> 'a) \<Rightarrow> error + worker \<Rightarrow> error + 'a" where
  "observe f r = (case r of Inl e \<Rightarrow> Inl e | Inr s \<Rightarrow> Inr (f s))"

text \<open>For each call of \<^verbatim>\<open>save_checkpoint\<close>: its \<^verbatim>\<open>is_best\<close> and the \<^verbatim>\<open>best_acc1\<close> it records.\<close>

definition saved_flags :: "worker \<Rightarrow> (bool \<times> real) list" where
  "saved_flags s = map (\<lambda>x. (fst (snd x), ck_best_acc1 (fst x))) (saves (trace s))"

definition train_calls :: "worker \<Rightarrow> (int \<times> nat \<times> nat) list" where
  "train_calls s = trains (trace s)"

definition core_calls :: "worker \<Rightarrow> event list" where
  "core_calls s = core (trace s)"

definition returns :: "error + worker \<Rightarrow> bool" where
  "returns r = (case r of Inl e \<Rightarrow> False | Inr s \<Rightarrow> True)"

text \<open>
  The same run resumed at epoch 2 of 4: for the ImageNet worker a \<^verbatim>\<open>process_model\<close> that
  has found a checkpoint of epoch 2, for the MNIST worker a checkpoint file of epoch 2.
\<close>

definition demo_resume_env :: env where
  "demo_resume_env = demo_env\<lparr>process_model := (\<lambda>m opt e. (m, opt, 2))\<rparr>"

definition demo_checkpoint :: checkpoint where
  "demo_checkpoint =
     \<lparr>ck_epoch = 2, ck_arch = ''lenet'', ck_state_dict = [1], ck_best_acc1 = 70,
      ck_optimizer = []\<rparr>"

definition demo_resumed :: worker where
  "demo_resumed =
     demo_worker\<lparr>resume := ''ck.pth.tar'', epochs := 4,
                 files := [''ck.pth.tar'' \<mapsto> Checkpoint demo_checkpoint]\<rparr>"

definition demo_fresh :: worker where
  "demo_fresh = demo_worker\<lparr>epochs := 4\<rparr>"


definition demo_evaluate_gen_map :: worker where
  "demo_evaluate_gen_map =
     demo_worker\<lparr>evaluate := True, gen_map := True, original_model := ''lenet''\<rparr>"

definition demo_evaluate :: worker where
  "demo_evaluate = demo_worker\<lparr>evaluate := True\<rparr>"

text \<open>What a validation pass that returns hands to its caller.\<close>

definition returned_metric :: "error + (event list \<times> real option) \<Rightarrow> error + real option" where
  "returned_metric r = (case r of Inl e \<Rightarrow> Inl e | Inr x \<Rightarrow> Inr (snd x))"

text \<open>Two validation batches of two images each: one half right, one all right.\<close>

definition demo_batch1 :: batch where
  "demo_batch1 = \<lparr>b_loss = 1, b_acc = 50, b_size = 2\<rparr>"

definition demo_batch2 :: batch where
  "demo_batch2 = \<lparr>b_loss = 1, b_acc = 100, b_size = 2\<rparr>"

text \<open>What a path holds after some disk steps; a disk with one checkpoint on it.\<close>

definition file_after :: "fsop list \<Rightarrow> fs \<Rightarrow> path \<Rightarrow> error + content option" where
  "file_after ops fs p = (case run_ops ops fs of Inl e \<Rightarrow> Inl e | Inr fs' \<Rightarrow> Inr (fs' p))"

definition demo_disk :: fs where
  "demo_disk = [''run_checkpoint.pth.tar'' \<mapsto> Checkpoint demo_checkpoint]"

definition demo_next_checkpoint :: checkpoint where
  "demo_next_checkpoint = demo_checkpoint\<lparr>ck_epoch := 3\<rparr>"

section \<open>Basic facts\<close>

lemma py_max_is_max: "py_max a b = max a b"
  by (simp add: py_max_def max_def)

lemma saves_Nil [simp]: "saves [] = []"
  by (simp add: saves_def)

lemma saves_Cons [simp]:
  "saves (ev # evs) =
     (case ev of SaveCheckpoint c b p \<Rightarrow> [(c, b, p)] | _ \<Rightarrow> []) @ saves evs"
  by (simp add: saves_def)

lemma saves_append [simp]: "saves (xs @ ys) = saves xs @ saves ys"
  by (simp add: saves_def)

lemma best_writes_append [simp]: "best_writes (xs @ ys) = best_writes xs @ best_writes ys"
  by (simp add: best_writes_def)

lemma trains_Nil [simp]: "trains [] = []"
  by (simp add: trains_def)

lemma trains_Cons [simp]:
  "trains (ev # evs) = (case ev of Train e l q \<Rightarrow> [(e, l, q)] | _ \<Rightarrow> []) @ trains evs"
  by (simp add: trains_def)

lemma trains_append [simp]: "trains (xs @ ys) = trains xs @ trains ys"
  by (simp add: trains_def)

lemma core_append [simp]: "core (xs @ ys) = core xs @ core ys"
  by (simp add: core_def)

lemma core_Nil [simp]: "core [] = []"
  by (simp add: core_def)

lemma core_Cons [simp]: "core (ev # evs) = (if is_core ev then ev # core evs else core evs)"
  by (simp add: core_def)

lemma emit_fields [simp]:
  "trace (emit ev s) = trace s @ [ev]"
  "files (emit ev s) = files s"
  "best_acc1 (emit ev s) = best_acc1 s"
  "model (emit ev s) = model s"
  "optim (emit ev s) = optim s"
  "lr_steps (emit ev s) = lr_steps s"
  "dnq_steps (emit ev s) = dnq_steps s"
  "has_writer (emit ev s) = has_writer s"
  "arch (emit ev s) = arch s"
  "log_name (emit ev s) = log_name s"
  "start_epoch (emit ev s) = start_epoch s"
  "epochs (emit ev s) = epochs s"
  "qw (emit ev s) = qw s"
  "qa (emit ev s) = qa s"
  "distributed (emit ev s) = distributed s"
  "debug (emit ev s) = debug s"
  "evaluate (emit ev s) = evaluate s"
  "gen_map (emit ev s) = gen_map s"
  "resume (emit ev s) = resume s"
  "resume_after (emit ev s) = resume_after s"
  "quant_bias_scale (emit ev s) = quant_bias_scale s"
  "bn_fusion (emit ev s) = bn_fusion s"
  "extract_inner_data (emit ev s) = extract_inner_data s"
  "original_model (emit ev s) = original_model s"
  by (simp_all add: emit_def)

lemma scheduler_step_fields [simp]:
  "trace (scheduler_step s) = trace s @ [SchedulerStep]"
  "files (scheduler_step s) = files s"
  "best_acc1 (scheduler_step s) = best_acc1 s"
  "model (scheduler_step s) = model s"
  "optim (scheduler_step s) = optim s"
  "lr_steps (scheduler_step s) = Suc (lr_steps s)"
  "dnq_steps (scheduler_step s) = dnq_steps s"
  "has_writer (scheduler_step s) = has_writer s"
  "arch (scheduler_step s) = arch s"
  "log_name (scheduler_step s) = log_name s"
  "start_epoch (scheduler_step s) = start_epoch s"
  "epochs (scheduler_step s) = epochs s"
  "qw (scheduler_step s) = qw s"
  "qa (scheduler_step s) = qa s"
  "distributed (scheduler_step s) = distributed s"
  "debug (scheduler_step s) = debug s"
  by (simp_all add: scheduler_step_def emit_def)

lemma dnq_step_fields [simp]:
  "trace (dnq_step s) = trace s @ [DnqStep]"
  "files (dnq_step s) = files s"
  "best_acc1 (dnq_step s) = best_acc1 s"
  "model (dnq_step s) = model s"
  "optim (dnq_step s) = optim s"
  "lr_steps (dnq_step s) = lr_steps s"
  "dnq_steps (dnq_step s) = Suc (dnq_steps s)"
  "has_writer (dnq_step s) = has_writer s"
  "arch (dnq_step s) = arch s"
  "log_name (dnq_step s) = log_name s"
  "start_epoch (dnq_step s) = start_epoch s"
  "epochs (dnq_step s) = epochs s"
  "qw (dnq_step s) = qw s"
  "qa (dnq_step s) = qa s"
  "distributed (dnq_step s) = distributed s"
  "debug (dnq_step s) = debug s"
  by (simp_all add: dnq_step_def emit_def)

lemma train_fields [simp]:
  "trace (train env e s) = trace s @ [Train e (lr_steps s) (dnq_steps s)]"
  "files (train env e s) = files s"
  "best_acc1 (train env e s) = best_acc1 s"
  "model (train env e s) = fst (train_fn env e (lr_steps s, dnq_steps s) (model s, optim s))"
  "optim (train env e s) = snd (train_fn env e (lr_steps s, dnq_steps s) (model s, optim s))"
  "lr_steps (train env e s) = lr_steps s"
  "dnq_steps (train env e s) = dnq_steps s"
  "has_writer (train env e s) = has_writer s"
  "arch (train env e s) = arch s"
  "log_name (train env e s) = log_name s"
  "start_epoch (train env e s) = start_epoch s"
  "epochs (train env e s) = epochs s"
  "qw (train env e s) = qw s"
  "qa (train env e s) = qa s"
  "distributed (train env e s) = distributed s"
  "debug (train env e s) = debug s"
  by (simp_all add: train_def Let_def emit_def)

lemma run_save_checkpoint:
  "run_ops (save_checkpoint state is_best prefix default_filename) fs =
     Inr (if is_best
          then fs(prefix @ default_filename \<mapsto> Checkpoint state,
                  prefix @ ''best.pth.tar'' \<mapsto> Checkpoint state)
          else fs(prefix @ default_filename \<mapsto> Checkpoint state))"
  by (simp add: save_checkpoint_def torch_save_def copyfile_def default_filename_def)

lemma written_save_checkpoint:
  "written (save_checkpoint state is_best prefix filename) =
     (prefix @ filename) # (if is_best then [prefix @ ''best.pth.tar''] else [])"
  by (simp add: save_checkpoint_def torch_save_def copyfile_def)

subsection \<open>One MNIST epoch\<close>

lemma mnist_epoch_total: "\<exists>s'. mnist_epoch env e s = Inr s'"
  by (simp add: mnist_epoch_def Let_def on_disk_def run_save_checkpoint)

lemma mnist_epoch_fields:
  assumes "mnist_epoch env e s = Inr s'"
  shows "lr_steps s' = Suc (lr_steps s)"
    and "dnq_steps s' = dnq_steps s"
    and "model s' = fst (train_fn env e (Suc (lr_steps s), dnq_steps s) (model s, optim s))"
    and "optim s' = snd (train_fn env e (Suc (lr_steps s), dnq_steps s) (model s, optim s))"
    and "best_acc1 s' = max (val_acc1 env (dnq_steps s') (model s')) (best_acc1 s)"
    and "arch s' = arch s"
    and "log_name s' = log_name s"
    and "start_epoch s' = start_epoch s"
    and "epochs s' = epochs s"
  using assms
  by (auto simp: mnist_epoch_def Let_def on_disk_def run_save_checkpoint py_max_is_max)

lemma mnist_epoch_trace:
  assumes "mnist_epoch env e s = Inr s'"
  shows "trace s' = trace s @
     [SchedulerStep, Train e (Suc (lr_steps s)) (dnq_steps s), Validate,
      AddScalar ''val/acc1'' (val_acc1 env (dnq_steps s') (model s')) e,
      AddScalar ''train/lr'' (lr_at env (Suc (lr_steps s))) e,
      SaveCheckpoint (snapshot e s') (best_acc1 s < val_acc1 env (dnq_steps s') (model s'))
        (mnist_prefix s)]"
  using assms
  by (auto simp: mnist_epoch_def Let_def on_disk_def run_save_checkpoint snapshot_def
      mnist_prefix_def)

lemma mnist_epoch_files:
  assumes "mnist_epoch env e s = Inr s'"
  shows "files s' =
     (if best_acc1 s < val_acc1 env (dnq_steps s') (model s')
      then (files s)(mnist_prefix s @ default_filename \<mapsto> Checkpoint (snapshot e s'),
                     mnist_prefix s @ ''best.pth.tar'' \<mapsto> Checkpoint (snapshot e s'))
      else (files s)(mnist_prefix s @ default_filename \<mapsto> Checkpoint (snapshot e s')))"
  using assms
  by (auto simp: mnist_epoch_def Let_def on_disk_def run_save_checkpoint snapshot_def
      mnist_prefix_def)

lemma snapshot_fields [simp]:
  "ck_epoch (snapshot e s) = e + 1"
  "ck_arch (snapshot e s) = arch s"
  "ck_state_dict (snapshot e s) = model s"
  "ck_best_acc1 (snapshot e s) = best_acc1 s"
  "ck_optimizer (snapshot e s) = optim s"
  by (simp_all add: snapshot_def)

lemma best_writes_Nil [simp]: "best_writes [] = []"
  by (simp add: best_writes_def)

lemma best_writes_Cons [simp]:
  "best_writes (ev # evs) =
     (case ev of SaveCheckpoint c b p \<Rightarrow> if b then [c] else [] | _ \<Rightarrow> []) @ best_writes evs"
  by (cases ev) (simp_all add: best_writes_def)

subsection \<open>One ImageNet epoch\<close>

lemma log_validation_fields [simp]:
  "files (log_validation env e a1 a5 s) = files s"
  "best_acc1 (log_validation env e a1 a5 s) = best_acc1 s"
  "model (log_validation env e a1 a5 s) = model s"
  "optim (log_validation env e a1 a5 s) = optim s"
  "lr_steps (log_validation env e a1 a5 s) = lr_steps s"
  "dnq_steps (log_validation env e a1 a5 s) = dnq_steps s"
  "has_writer (log_validation env e a1 a5 s) = has_writer s"
  "arch (log_validation env e a1 a5 s) = arch s"
  "log_name (log_validation env e a1 a5 s) = log_name s"
  "start_epoch (log_validation env e a1 a5 s) = start_epoch s"
  "epochs (log_validation env e a1 a5 s) = epochs s"
  "qw (log_validation env e a1 a5 s) = qw s"
  "qa (log_validation env e a1 a5 s) = qa s"
  "distributed (log_validation env e a1 a5 s) = distributed s"
  "debug (log_validation env e a1 a5 s) = debug s"
  "saves (trace (log_validation env e a1 a5 s)) = saves (trace s)"
  "best_writes (trace (log_validation env e a1 a5 s)) = best_writes (trace s)"
  "trains (trace (log_validation env e a1 a5 s)) = trains (trace s)"
  "core (trace (log_validation env e a1 a5 s)) = core (trace s)"
  by (simp_all add: log_validation_def Let_def is_core_def split: option.split)

lemma imagenet_prefix_cong:
  "log_name s' = log_name s \<Longrightarrow> arch s' = arch s \<Longrightarrow> qw s' = qw s \<Longrightarrow> qa s' = qa s
   \<Longrightarrow> imagenet_prefix s' = imagenet_prefix s"
  by (simp add: imagenet_prefix_def)

lemma imagenet_epoch_fields [simp]:
  "lr_steps (imagenet_epoch env e s) = Suc (lr_steps s)"
  "dnq_steps (imagenet_epoch env e s) = Suc (dnq_steps s)"
  "model (imagenet_epoch env e s) =
     fst (train_fn env e (lr_steps s, dnq_steps s) (model s, optim s))"
  "optim (imagenet_epoch env e s) =
     snd (train_fn env e (lr_steps s, dnq_steps s) (model s, optim s))"
  "has_writer (imagenet_epoch env e s) = has_writer s"
  "start_epoch (imagenet_epoch env e s) = start_epoch s"
  "epochs (imagenet_epoch env e s) = epochs s"
  "arch (imagenet_epoch env e s) = arch s"
  "log_name (imagenet_epoch env e s) = log_name s"
  "qw (imagenet_epoch env e s) = qw s"
  "qa (imagenet_epoch env e s) = qa s"
  "distributed (imagenet_epoch env e s) = distributed s"
  "debug (imagenet_epoch env e s) = debug s"
  "files (imagenet_epoch env e s) = files s"
  by (simp_all add: imagenet_epoch_def Let_def)

lemma imagenet_epoch_best:
  "best_acc1 (imagenet_epoch env e s) =
     max (val_acc1 env (Suc (dnq_steps s)) (model (imagenet_epoch env e s))) (best_acc1 s)"
  by (simp add: imagenet_epoch_def Let_def py_max_is_max)

lemma imagenet_epoch_saves:
  "saves (trace (imagenet_epoch env e s)) =
     saves (trace s) @
     (if has_writer s
      then [(snapshot e (imagenet_epoch env e s),
             best_acc1 s < val_acc1 env (Suc (dnq_steps s)) (model (imagenet_epoch env e s)),
             imagenet_prefix s)]
      else [])"
  by (simp add: imagenet_epoch_def Let_def snapshot_def imagenet_prefix_def)

lemma imagenet_epoch_trains:
  "trains (trace (imagenet_epoch env e s)) = trains (trace s) @ [(e, lr_steps s, dnq_steps s)]"
  by (simp add: imagenet_epoch_def Let_def)

lemma imagenet_epoch_core:
  "core (trace (imagenet_epoch env e s)) =
     core (trace s) @
     [Train e (lr_steps s) (dnq_steps s), SchedulerStep, DnqStep, Validate] @
     (if has_writer s
      then [SaveCheckpoint (snapshot e (imagenet_epoch env e s))
              (best_acc1 s < val_acc1 env (Suc (dnq_steps s)) (model (imagenet_epoch env e s)))
              (imagenet_prefix s)]
      else [])"
  by (simp add: imagenet_epoch_def Let_def snapshot_def imagenet_prefix_def is_core_def)

lemma demo_worker_fields [simp]:
  "trace demo_worker = []"
  "best_acc1 demo_worker = 0"
  "arch demo_worker = ''lenet''"
  "log_name demo_worker = ''log''"
  "files demo_worker = Map.empty"
  "start_epoch demo_worker = 0"
  "epochs demo_worker = 2"
  "has_writer demo_worker = False"
  "lr_steps demo_worker = 0"
  "dnq_steps demo_worker = 0"
  by (simp_all add: demo_worker_def)

lemma py_range_demo: "py_range 0 2 = [0, 1]"
  by code_simp

subsection \<open>The best metric along a loop\<close>

lemma mnist_loop_best:
  "\<exists>s' new. for_each (mnist_epoch env) es s = Inr s'
     \<and> best_acc1 s \<le> best_acc1 s'
     \<and> best_writes (trace s') = best_writes (trace s) @ new
     \<and> sorted (map ck_best_acc1 new)
     \<and> (\<forall>c\<in>set new. best_acc1 s \<le> ck_best_acc1 c \<and> ck_best_acc1 c \<le> best_acc1 s')"
proof (induction es arbitrary: s)
  case Nil
  have "for_each (mnist_epoch env) [] s = Inr s \<and> best_acc1 s \<le> best_acc1 s
     \<and> best_writes (trace s) = best_writes (trace s) @ []
     \<and> sorted (map ck_best_acc1 [])
     \<and> (\<forall>c\<in>set []. best_acc1 s \<le> ck_best_acc1 c \<and> ck_best_acc1 c \<le> best_acc1 s)"
    by simp
  then show ?case by blast
next
  case (Cons e es)
  obtain s1 where s1: "mnist_epoch env e s = Inr s1"
    using mnist_epoch_total by blast
  obtain s' new where run: "for_each (mnist_epoch env) es s1 = Inr s'"
    and le: "best_acc1 s1 \<le> best_acc1 s'"
    and bw: "best_writes (trace s') = best_writes (trace s1) @ new"
    and srt: "sorted (map ck_best_acc1 new)"
    and bnd: "\<forall>c\<in>set new. best_acc1 s1 \<le> ck_best_acc1 c \<and> ck_best_acc1 c \<le> best_acc1 s'"
    using Cons.IH [of s1] by blast
  define hd_new where
    "hd_new = (if best_acc1 s < val_acc1 env (dnq_steps s1) (model s1) then [snapshot e s1] else [])"
  have step_le: "best_acc1 s \<le> best_acc1 s1"
    by (simp add: mnist_epoch_fields(5) [OF s1])
  have bw1: "best_writes (trace s1) = best_writes (trace s) @ hd_new"
    by (simp add: mnist_epoch_trace [OF s1] hd_new_def)
  have hd_val: "\<forall>c\<in>set hd_new. ck_best_acc1 c = best_acc1 s1"
    by (simp add: hd_new_def)
  have hd_srt: "sorted (map ck_best_acc1 hd_new)"
    by (simp add: hd_new_def)
  have "for_each (mnist_epoch env) (e # es) s = Inr s'"
    using s1 run by simp
  moreover have "best_acc1 s \<le> best_acc1 s'"
    using step_le le by simp
  moreover have "best_writes (trace s') = best_writes (trace s) @ (hd_new @ new)"
    using bw bw1 by simp
  moreover have "sorted (map ck_best_acc1 (hd_new @ new))"
    using srt bnd hd_val hd_srt by (auto simp: sorted_append)
  moreover have "\<forall>c\<in>set (hd_new @ new). best_acc1 s \<le> ck_best_acc1 c \<and> ck_best_acc1 c \<le> best_acc1 s'"
    using bnd hd_val step_le le by auto
  ultimately show ?case by blast
qed

lemma imagenet_loop_best:
  "\<exists>new. best_acc1 s \<le> best_acc1 (fold (imagenet_epoch env) es s)
     \<and> best_writes (trace (fold (imagenet_epoch env) es s)) = best_writes (trace s) @ new
     \<and> sorted (map ck_best_acc1 new)
     \<and> (\<forall>c\<in>set new. best_acc1 s \<le> ck_best_acc1 c
           \<and> ck_best_acc1 c \<le> best_acc1 (fold (imagenet_epoch env) es s))"
proof (induction es arbitrary: s)
  case Nil
  have "best_acc1 s \<le> best_acc1 (fold (imagenet_epoch env) [] s)
     \<and> best_writes (trace (fold (imagenet_epoch env) [] s)) = best_writes (trace s) @ []
     \<and> sorted (map ck_best_acc1 [])
     \<and> (\<forall>c\<in>set []. best_acc1 s \<le> ck_best_acc1 c
           \<and> ck_best_acc1 c \<le> best_acc1 (fold (imagenet_epoch env) [] s))"
    by simp
  then show ?case by blast
next
  case (Cons e es)
  define s1 where "s1 = imagenet_epoch env e s"
  define s' where "s' = fold (imagenet_epoch env) es s1"
  obtain new where le: "best_acc1 s1 \<le> best_acc1 s'"
    and bw: "best_writes (trace s') = best_writes (trace s1) @ new"
    and srt: "sorted (map ck_best_acc1 new)"
    and bnd: "\<forall>c\<in>set new. best_acc1 s1 \<le> ck_best_acc1 c \<and> ck_best_acc1 c \<le> best_acc1 s'"
    using Cons.IH [of s1] unfolding s'_def by blast
  define hd_new where
    "hd_new = map fst (filter (\<lambda>x. fst (snd x))
       (if has_writer s
        then [(snapshot e s1, best_acc1 s < val_acc1 env (Suc (dnq_steps s)) (model s1),
               imagenet_prefix s)]
        else []))"
  have step_le: "best_acc1 s \<le> best_acc1 s1"
    unfolding s1_def by (simp add: imagenet_epoch_best)
  have bw1: "best_writes (trace s1) = best_writes (trace s) @ hd_new"
    unfolding s1_def hd_new_def best_writes_def by (simp add: imagenet_epoch_saves)
  have hd_val: "\<forall>c\<in>set hd_new. ck_best_acc1 c = best_acc1 s1"
    by (auto simp: hd_new_def)
  have hd_srt: "sorted (map ck_best_acc1 hd_new)"
    by (auto simp: hd_new_def)
  have fold_eq: "fold (imagenet_epoch env) (e # es) s = s'"
    by (simp add: s'_def s1_def)
  have "best_acc1 s \<le> best_acc1 s'"
    using step_le le by simp
  moreover have "best_writes (trace s') = best_writes (trace s) @ (hd_new @ new)"
    using bw bw1 by simp
  moreover have "sorted (map ck_best_acc1 (hd_new @ new))"
    using srt bnd hd_val hd_srt by (auto simp: sorted_append)
  moreover have "\<forall>c\<in>set (hd_new @ new). best_acc1 s \<le> ck_best_acc1 c \<and> ck_best_acc1 c \<le> best_acc1 s'"
    using bnd hd_val step_le le by auto
  ultimately show ?case unfolding fold_eq by blast
qed

subsection \<open>The loops of the ImageNet worker\<close>

lemma train_lr_append [simp]: "train_lr (xs @ ys) = train_lr xs @ train_lr ys"
  by (simp add: train_lr_def)

lemma trained_epochs_append [simp]:
  "trained_epochs (xs @ ys) = trained_epochs xs @ trained_epochs ys"
  by (simp add: trained_epochs_def)

lemma train_lr_Nil [simp]: "train_lr [] = []"
  by (simp add: train_lr_def)

lemma trained_epochs_Nil [simp]: "trained_epochs [] = []"
  by (simp add: trained_epochs_def)

lemma length_py_range: "length (py_range a b) = nat (b - a)"
  by (simp add: py_range_def)

lemma fold_scheduler_step_fields [simp]:
  "lr_steps (fold (\<lambda>epoch. scheduler_step) es s) = lr_steps s + length es"
  "dnq_steps (fold (\<lambda>epoch. scheduler_step) es s) = dnq_steps s"
  "has_writer (fold (\<lambda>epoch. scheduler_step) es s) = has_writer s"
  "start_epoch (fold (\<lambda>epoch. scheduler_step) es s) = start_epoch s"
  "epochs (fold (\<lambda>epoch. scheduler_step) es s) = epochs s"
  "best_acc1 (fold (\<lambda>epoch. scheduler_step) es s) = best_acc1 s"
  "files (fold (\<lambda>epoch. scheduler_step) es s) = files s"
  "trains (trace (fold (\<lambda>epoch. scheduler_step) es s)) = trains (trace s)"
  "saves (trace (fold (\<lambda>epoch. scheduler_step) es s)) = saves (trace s)"
  "core (trace (fold (\<lambda>epoch. scheduler_step) es s)) =
     core (trace s) @ replicate (length es) SchedulerStep"
  by (induction es arbitrary: s; simp add: is_core_def replicate_append_same)+

lemma fold_imagenet_epoch_fields [simp]:
  "lr_steps (fold (imagenet_epoch env) es s) = lr_steps s + length es"
  "has_writer (fold (imagenet_epoch env) es s) = has_writer s"
  "start_epoch (fold (imagenet_epoch env) es s) = start_epoch s"
  "epochs (fold (imagenet_epoch env) es s) = epochs s"
  "files (fold (imagenet_epoch env) es s) = files s"
  by (induction es arbitrary: s; simp)+

lemma upt_shift: "[k..<k + Suc n] = k # [Suc k..<Suc k + n]"
  by (subst upt_rec) simp

lemma train_lr_single [simp]: "train_lr [Train e l q] = [(e, l)]"
  by (simp add: train_lr_def)

lemma imagenet_epoch_train_lr:
  "train_lr (trace (imagenet_epoch env e s)) = train_lr (trace s) @ [(e, lr_steps s)]"
  by (simp add: train_lr_def imagenet_epoch_trains)

lemma fold_imagenet_epoch_train_lr:
  "train_lr (trace (fold (imagenet_epoch env) es s)) =
     train_lr (trace s) @ zip es [lr_steps s..<lr_steps s + length es]"
proof (induction es arbitrary: s)
  case Nil
  show ?case by simp
next
  case (Cons e es)
  have "[lr_steps s..<lr_steps s + length (e # es)] =
      lr_steps s # [Suc (lr_steps s)..<Suc (lr_steps s) + length es]"
    using upt_shift [of "lr_steps s" "length es"] by simp
  then show ?case
    using Cons.IH [of "imagenet_epoch env e s"] by (simp add: imagenet_epoch_train_lr)
qed

lemma fold_imagenet_epoch_trained:
  "trained_epochs (trace (fold (imagenet_epoch env) es s)) = trained_epochs (trace s) @ es"
  by (induction es arbitrary: s) (simp_all add: trained_epochs_def imagenet_epoch_trains)

lemma fold_imagenet_epoch_saves:
  "\<not> has_writer s \<Longrightarrow> saves (trace (fold (imagenet_epoch env) es s)) = saves (trace s)"
  by (induction es arbitrary: s) (simp_all add: imagenet_epoch_saves)

lemma zip_upto_positions:
  "0 \<le> a \<Longrightarrow> zip [a..b] [nat a..<nat a + length [a..b]] = map (\<lambda>e. (e, nat e)) [a..b]"
proof (induction a b rule: upto.induct)
  case (1 i j)
  show ?case
  proof (cases "i \<le> j")
    case True
    then have unfold: "[i..j] = i # [i + 1..j]"
      by (simp add: upto_rec1)
    have next_pos: "nat (i + 1) = Suc (nat i)"
      using "1.prems" by simp
    have "zip [i + 1..j] [nat (i + 1)..<nat (i + 1) + length [i + 1..j]] =
        map (\<lambda>e. (e, nat e)) [i + 1..j]"
      using "1.IH" [OF True] "1.prems" by simp
    then have tail: "zip [i + 1..j] [Suc (nat i)..<Suc (nat i) + length [i + 1..j]] =
        map (\<lambda>e. (e, nat e)) [i + 1..j]"
      by (simp only: next_pos)
    have "[nat i..<nat i + length (i # [i + 1..j])] =
        nat i # [Suc (nat i)..<Suc (nat i) + length [i + 1..j]]"
      by (simp add: upt_conv_Cons)
    then have "zip (i # [i + 1..j]) [nat i..<nat i + length (i # [i + 1..j])] =
        map (\<lambda>e. (e, nat e)) (i # [i + 1..j])"
      using tail by simp
    then show ?thesis
      by (simp only: unfold [symmetric])
  next
    case False
    then show ?thesis by simp
  qed
qed

lemma skip_ahead_fields [simp]:
  "lr_steps (skip_ahead s) = lr_steps s + nat (start_epoch s)"
  "dnq_steps (skip_ahead s) = dnq_steps s"
  "has_writer (skip_ahead s) = has_writer s"
  "start_epoch (skip_ahead s) = start_epoch s"
  "epochs (skip_ahead s) = epochs s"
  "best_acc1 (skip_ahead s) = best_acc1 s"
  "files (skip_ahead s) = files s"
  "trains (trace (skip_ahead s)) = trains (trace s)"
  "saves (trace (skip_ahead s)) = saves (trace s)"
  by (simp_all add: skip_ahead_def length_py_range)

lemma imagenet_training_trains:
  "trains (trace (imagenet_training env s)) =
     trains (trace (fold (imagenet_epoch env) (py_range (start_epoch s) (epochs s))
       (skip_ahead s)))"
  by (simp add: imagenet_training_def Let_def)

lemma imagenet_training_saves:
  "saves (trace (imagenet_training env s)) =
     saves (trace (fold (imagenet_epoch env) (py_range (start_epoch s) (epochs s))
       (skip_ahead s)))"
  by (simp add: imagenet_training_def Let_def)

lemma imagenet_training_train_lr:
  "train_lr (trace (imagenet_training env s)) =
     train_lr (trace (fold (imagenet_epoch env) (py_range (start_epoch s) (epochs s))
       (skip_ahead s)))"
  unfolding train_lr_def by (simp only: imagenet_training_trains)

lemma skip_ahead_train_lr [simp]: "train_lr (trace (skip_ahead s)) = train_lr (trace s)"
  unfolding train_lr_def by simp

lemma imagenet_training_lr:
  assumes "0 \<le> start_epoch s" and "lr_steps s = 0"
  shows "train_lr (trace (imagenet_training env s)) =
     train_lr (trace s) @ map (\<lambda>e. (e, nat e)) (py_range (start_epoch s) (epochs s))"
proof -
  let ?es = "py_range (start_epoch s) (epochs s)"
  have "train_lr (trace (imagenet_training env s)) =
      train_lr (trace s) @ zip ?es [nat (start_epoch s)..<nat (start_epoch s) + length ?es]"
    using assms(2) by (simp add: imagenet_training_train_lr fold_imagenet_epoch_train_lr)
  then show ?thesis
    using zip_upto_positions [OF assms(1), of "epochs s - 1"] by (simp add: py_range_def)
qed

lemma imagenet_training_epochs:
  "trained_epochs (trace (imagenet_training env s)) =
     trained_epochs (trace s) @ py_range (start_epoch s) (epochs s)"
proof -
  have "trained_epochs (trace (imagenet_training env s)) =
      trained_epochs (trace (fold (imagenet_epoch env) (py_range (start_epoch s) (epochs s))
        (skip_ahead s)))"
    unfolding trained_epochs_def by (simp only: imagenet_training_trains)
  also have "\<dots> = trained_epochs (trace (skip_ahead s)) @ py_range (start_epoch s) (epochs s)"
    by (rule fold_imagenet_epoch_trained)
  also have "trained_epochs (trace (skip_ahead s)) = trained_epochs (trace s)"
    unfolding trained_epochs_def by simp
  finally show ?thesis .
qed

subsection \<open>The loop of the MNIST worker\<close>

lemma mnist_epoch_trained:
  assumes "mnist_epoch env e s = Inr s'"
  shows "trained_epochs (trace s') = trained_epochs (trace s) @ [e]"
  by (simp add: trained_epochs_def mnist_epoch_trace [OF assms])

lemma for_each_mnist_trained:
  "\<exists>s'. for_each (mnist_epoch env) es s = Inr s'
     \<and> trained_epochs (trace s') = trained_epochs (trace s) @ es"
proof (induction es arbitrary: s)
  case Nil
  show ?case by simp
next
  case (Cons e es)
  obtain s1 where s1: "mnist_epoch env e s = Inr s1"
    using mnist_epoch_total by blast
  obtain s' where "for_each (mnist_epoch env) es s1 = Inr s'"
    and "trained_epochs (trace s') = trained_epochs (trace s1) @ es"
    using Cons.IH [of s1] by blast
  then show ?case
    using s1 by (simp add: mnist_epoch_trained [OF s1])
qed

lemma mnist_training_trained:
  "\<exists>s'. mnist_training env s = Inr s'
     \<and> trained_epochs (trace s') = trained_epochs (trace s) @ py_range (start_epoch s) (epochs s)"
  using for_each_mnist_trained
    [of env "py_range (start_epoch s) (epochs s)"
        "s\<lparr>log_name := ''logger/'' @ arch s @ ''_'' @ log_name s\<rparr>"]
  by (simp add: mnist_training_def Let_def)

subsection \<open>The blocks before the loops\<close>

lemma restore_eq:
  "restore ck s =
     Inr (if quant_bias_scale s then s\<lparr>model := ck_state_dict ck\<rparr>
          else s\<lparr>model := ck_state_dict ck, start_epoch := ck_epoch ck,
                  best_acc1 := ck_best_acc1 ck, optim := ck_optimizer ck,
                  trace := trace s @ [Print (LoadedCheckpoint (resume s) (ck_epoch ck) (ck_best_acc1 ck)),
                                      Print (SaveOnlyWeights (arch s))],
                  files := (files s)(arch s @ ''.pth'' \<mapsto> Weights (ck_state_dict ck))\<rparr>)"
  by (simp add: restore_def Let_def on_disk_def torch_save_def emit_def)

lemma resume_block_cases:
  "resume_block s =
     (if resume s = [] then Inr s
      else case files s (resume s) of
        None \<Rightarrow> Inr (emit (Print (NoCheckpointFound (resume s))) s)
      | Some Torn \<Rightarrow> Inl UnpicklingError
      | Some (Weights w) \<Rightarrow> Inl KeyError
      | Some (Checkpoint ck) \<Rightarrow> restore ck (emit (Print (LoadingCheckpoint (resume s))) s))"
  by (simp add: resume_block_def isfile_def torch_load_def Let_def
      split: option.split content.split)

lemma resume_block_frame_case:
  "case resume_block s of Inl e \<Rightarrow> True
   | Inr s' \<Rightarrow> core (trace s') = core (trace s) \<and> evaluate s' = evaluate s
      \<and> epochs s' = epochs s \<and> arch s' = arch s \<and> log_name s' = log_name s
      \<and> resume_after s' = resume_after s \<and> bn_fusion s' = bn_fusion s
      \<and> quant_bias_scale s' = quant_bias_scale s
      \<and> extract_inner_data s' = extract_inner_data s
      \<and> (files s' p = Some (Checkpoint c) \<longrightarrow> files s p = Some (Checkpoint c))"
  unfolding resume_block_cases restore_eq
  by (simp add: is_core_def split: option.split content.split)

lemma resume_block_frame:
  assumes "resume_block s = Inr s'"
  shows "core (trace s') = core (trace s)"
    and "evaluate s' = evaluate s"
    and "epochs s' = epochs s"
    and "arch s' = arch s"
    and "log_name s' = log_name s"
    and "resume_after s' = resume_after s"
    and "bn_fusion s' = bn_fusion s"
    and "quant_bias_scale s' = quant_bias_scale s"
    and "extract_inner_data s' = extract_inner_data s"
    and "files s' p = Some (Checkpoint c) \<longrightarrow> files s p = Some (Checkpoint c)"
  using resume_block_frame_case [of s p c] by (simp_all add: assms)


lemma fusion_block_fields [simp]:
  "trace (fusion_block env s) = trace s"
  "files (fusion_block env s) = files s"
  "evaluate (fusion_block env s) = evaluate s"
  "start_epoch (fusion_block env s) = start_epoch s"
  "epochs (fusion_block env s) = epochs s"
  "arch (fusion_block env s) = arch s"
  "log_name (fusion_block env s) = log_name s"
  "best_acc1 (fusion_block env s) = best_acc1 s"
  "resume (fusion_block env s) = resume s"
  "resume_after (fusion_block env s) = resume_after s"
  "extract_inner_data (fusion_block env s) = extract_inner_data s"
  by (simp_all add: fusion_block_def Let_def)

lemma extract_block_fields [simp]:
  "core (trace (extract_block s)) = core (trace s)"
  "trained_epochs (trace (extract_block s)) = trained_epochs (trace s)"
  "files (extract_block s) = files s"
  "evaluate (extract_block s) = evaluate s"
  "start_epoch (extract_block s) = start_epoch s"
  "epochs (extract_block s) = epochs s"
  "arch (extract_block s) = arch s"
  "log_name (extract_block s) = log_name s"
  "best_acc1 (extract_block s) = best_acc1 s"
  by (simp_all add: extract_block_def is_core_def trained_epochs_def)

lemma extract_block_keeps: "ev \<in> set (trace s) \<Longrightarrow> ev \<in> set (trace (extract_block s))"
  by (simp add: extract_block_def)

lemma resume_after_block_cases:
  "resume_after_block s =
     (if resume_after s = [] then Inr s
      else case files s (resume_after s) of
        None \<Rightarrow> Inr (emit (Print (NoCheckpointFound (resume s))) s)
      | Some Torn \<Rightarrow> Inl UnpicklingError
      | Some (Weights w) \<Rightarrow> Inl KeyError
      | Some (Checkpoint ck) \<Rightarrow>
          Inr ((emit (Print (LoadingCheckpoint (resume_after s))) s)\<lparr>model := ck_state_dict ck\<rparr>))"
  by (simp add: resume_after_block_def isfile_def torch_load_def Let_def
      split: option.split content.split)

lemma resume_after_block_frame_case:
  "case resume_after_block s of Inl e \<Rightarrow> True
   | Inr s' \<Rightarrow> core (trace s') = core (trace s) \<and> evaluate s' = evaluate s
      \<and> extract_inner_data s' = extract_inner_data s \<and> files s' = files s"
  unfolding resume_after_block_cases
  by (simp add: is_core_def split: option.split content.split)

lemma resume_after_block_frame:
  assumes "resume_after_block s = Inr s'"
  shows "core (trace s') = core (trace s)"
    and "evaluate s' = evaluate s"
    and "extract_inner_data s' = extract_inner_data s"
    and "files s' = files s"
  using resume_after_block_frame_case [of s] by (simp_all add: assms)


lemma create_model_frame_case:
  "case create_model env s of Inl e \<Rightarrow> True
   | Inr s' \<Rightarrow> trace s' = trace s \<and> files s' = files s \<and> evaluate s' = evaluate s
      \<and> gen_map s' = gen_map s"
  by (simp add: create_model_def split: option.split)

lemma create_model_frame:
  assumes "create_model env s = Inr s'"
  shows "trace s' = trace s"
    and "files s' = files s"
    and "evaluate s' = evaluate s"
    and "gen_map s' = gen_map s"
  using create_model_frame_case [where env = env and s = s] by (simp_all add: assms)

lemma prepare_fields [simp]:
  "core (trace (prepare env s)) = core (trace s)"
  "saves (trace (prepare env s)) = saves (trace s)"
  "trains (trace (prepare env s)) = trains (trace s)"
  "files (prepare env s) = files s"
  "evaluate (prepare env s) = evaluate s"
  "epochs (prepare env s) = epochs s"
  "has_writer (prepare env s) = get_summary_writer env"
  "lr_steps (prepare env s) = 0"
  "dnq_steps (prepare env s) = 0"
  "start_epoch (prepare env s) = snd (snd (process_model env (model s) (init_optim env) (start_epoch s)))"
  by (simp_all add: prepare_def Let_def is_core_def)

lemma imagenet_training_files [simp]: "files (imagenet_training env s) = files s"
  by (simp add: imagenet_training_def Let_def skip_ahead_def)

subsection \<open>\<^verbatim>\<open>main_worker\<close> of the MNIST worker, branch by branch\<close>

lemma and_then_Inr:
  assumes "and_then r f = Inr s'"
  obtains s1 where "r = Inr s1" and "f s1 = Inr s'"
  using assms by (cases r) (simp_all add: and_then_def)

lemma trained_epochs_Cons [simp]:
  "trained_epochs (ev # evs) =
     (case ev of Train e l q \<Rightarrow> [e] | _ \<Rightarrow> []) @ trained_epochs evs"
  by (cases ev) (simp_all add: trained_epochs_def)

lemma mnist_main_worker_gen_map:
  assumes "gen_map s"
  shows "mnist_main_worker env s =
     (case mnist_models env (arch s) of
        None \<Rightarrow> Inr (emit (Print (NotSupported (arch s))) (s\<lparr>qw := - 1, qa := - 1\<rparr>))
      | Some m \<Rightarrow>
          if mnist_models env (original_model s) \<noteq> None
          then Inr (emit GenKeyMap (s\<lparr>qw := - 1, qa := - 1, model := m\<rparr>))
          else Inl AssertionError)"
  using assms by (simp add: mnist_main_worker_def Let_def split: option.split)

lemma mnist_main_worker_unknown:
  assumes "\<not> gen_map s" and "mnist_models env (arch s) = None"
  shows "mnist_main_worker env s = Inr (emit (Print (NotSupported (arch s))) s)"
  using assms by (simp add: mnist_main_worker_def Let_def)

lemma mnist_main_worker_known:
  assumes "\<not> gen_map s" and "mnist_models env (arch s) = Some m"
  shows "mnist_main_worker env s =
     and_then (resume_block (s\<lparr>model := m, optim := init_optim env\<rparr>)) (\<lambda>s2.
     and_then (resume_after_block (fusion_block env s2)) (\<lambda>s3.
       if evaluate s3
       then Inr (emit Validate ((extract_block s3)\<lparr>lr_steps := 0, dnq_steps := 0\<rparr>))
       else mnist_training env ((extract_block s3)\<lparr>lr_steps := 0, dnq_steps := 0\<rparr>)))"
  using assms by (simp add: mnist_main_worker_def Let_def)

section \<open>The claims\<close>

text \<open>
  C1, as stated, fails. Resumed at epoch 2 of 4, the ImageNet worker trains epoch 2 with
  the learning-rate scheduler stepped twice but the bit-width scheduler not stepped at all,
  where the run that was not interrupted has stepped both twice; the MNIST worker trains
  epoch 2 with its scheduler stepped once, where the run that was not interrupted has
  stepped it three times.
\<close>

theorem resume_schedules_counterexample:
  "observe train_calls (imagenet_main_worker demo_resume_env demo_fresh)
     = Inr [(2, 2, 0), (3, 3, 1)]
   \<and> observe train_calls (imagenet_main_worker demo_env demo_fresh)
     = Inr [(0, 0, 0), (1, 1, 1), (2, 2, 2), (3, 3, 3)]
   \<and> observe train_calls (mnist_main_worker demo_env demo_resumed)
     = Inr [(2, 1, 0), (3, 2, 0)]
   \<and> observe train_calls (mnist_main_worker demo_env demo_fresh)
     = Inr [(0, 1, 0), (1, 2, 0), (2, 3, 0), (3, 4, 0)]"
proof (intro conjI)
  show "observe train_calls (imagenet_main_worker demo_resume_env demo_fresh)
     = Inr [(2, 2, 0), (3, 3, 1)]"
    by code_simp
  show "observe train_calls (imagenet_main_worker demo_env demo_fresh)
     = Inr [(0, 0, 0), (1, 1, 1), (2, 2, 2), (3, 3, 3)]"
    by code_simp
  show "observe train_calls (mnist_main_worker demo_env demo_resumed)
     = Inr [(2, 1, 0), (3, 2, 0)]"
    by code_simp
  show "observe train_calls (mnist_main_worker demo_env demo_fresh)
     = Inr [(0, 1, 0), (1, 2, 0), (2, 3, 0), (3, 4, 0)]"
    by code_simp
qed

text \<open>
  C1, amended. In the ImageNet worker, once \<^verbatim>\<open>process_model\<close> has left a start epoch
  \<open>N \<ge> 0\<close> and the schedulers have been constructed, the training pass of every epoch \<open>e\<close>
  from \<open>N\<close> on is made with the learning-rate scheduler stepped exactly \<open>e\<close> times, \<open>N\<close> times
  before the first one, which is what a run from epoch 0 has at that epoch; and the epochs
  trained are \<open>N\<close>, \<open>N + 1\<close>, ... up to the last, in both workers. Nothing is said of the
  bit-width schedule, nor of the schedule of the MNIST worker.
\<close>

theorem resume_learning_rate_schedule:
  "(0 \<le> start_epoch (prepare env s) \<longrightarrow>
      train_lr (trace (imagenet_training env (prepare env s))) =
        train_lr (trace s) @
        map (\<lambda>e. (e, nat e)) (py_range (start_epoch (prepare env s)) (epochs s)))
   \<and> trained_epochs (trace (imagenet_training env s)) =
        trained_epochs (trace s) @ py_range (start_epoch s) (epochs s)
   \<and> (\<exists>s'. mnist_training env s = Inr s'
        \<and> trained_epochs (trace s') =
            trained_epochs (trace s) @ py_range (start_epoch s) (epochs s))"
proof (intro conjI impI)
  assume "0 \<le> start_epoch (prepare env s)"
  moreover have "lr_steps (prepare env s) = 0"
    by simp
  moreover have "train_lr (trace (prepare env s)) = train_lr (trace s)"
    unfolding train_lr_def by simp
  ultimately show "train_lr (trace (imagenet_training env (prepare env s))) =
        train_lr (trace s) @
        map (\<lambda>e. (e, nat e)) (py_range (start_epoch (prepare env s)) (epochs s))"
    using imagenet_training_lr [of "prepare env s" env] by simp
next
  show "trained_epochs (trace (imagenet_training env s)) =
        trained_epochs (trace s) @ py_range (start_epoch s) (epochs s)"
    by (rule imagenet_training_epochs)
next
  show "\<exists>s'. mnist_training env s = Inr s'
        \<and> trained_epochs (trace s') =
            trained_epochs (trace s) @ py_range (start_epoch s) (epochs s)"
    by (rule mnist_training_trained)
qed

theorem resume_learning_rate_schedule_witness:
  "train_lr (trace (imagenet_training demo_resume_env (prepare demo_resume_env demo_fresh)))
     = [(2, 2), (3, 3)]"
proof -
  have start: "start_epoch (prepare demo_resume_env demo_fresh) = 2"
    by (simp add: demo_resume_env_def)
  have range: "py_range 2 4 = [2, 3]"
    by code_simp
  have "epochs demo_fresh = 4" and "trace demo_fresh = []"
    by (simp_all add: demo_fresh_def)
  then show ?thesis
    using resume_learning_rate_schedule [of demo_resume_env demo_fresh] start range
    by simp
qed



text \<open>
  What the resuming MNIST worker takes from a checkpoint it has loaded: the model
  parameters always; the epoch, the best metric and the optimiser state unless
  \<^verbatim>\<open>--quant-bias-scale\<close> is given.
\<close>

lemma resume_adopts_checkpoint:
  assumes "resume s \<noteq> []" and "files s (resume s) = Some (Checkpoint ck)"
  shows "\<exists>s'. resume_block s = Inr s' \<and> model s' = ck_state_dict ck
    \<and> start_epoch s' = (if quant_bias_scale s then start_epoch s else ck_epoch ck)
    \<and> best_acc1 s' = (if quant_bias_scale s then best_acc1 s else ck_best_acc1 ck)
    \<and> optim s' = (if quant_bias_scale s then optim s else ck_optimizer ck)"
  using assms
  by (simp add: resume_block_def isfile_def torch_load_def restore_def Let_def on_disk_def
      torch_save_def)

text \<open>
  C3. Across every sequence of epochs of a run, started in any state, the tracked best
  metric does not decrease, and the best metrics recorded by the successive writes of the
  best file during that sequence are in non-decreasing order, each between the tracked
  best at the start and the tracked best at the end. For the loop of the MNIST worker,
  which always returns, and for the loop of the ImageNet worker.
\<close>

theorem best_metric_monotone:
  "(\<exists>s' new. for_each (mnist_epoch env) es s = Inr s'
     \<and> best_acc1 s \<le> best_acc1 s'
     \<and> best_writes (trace s') = best_writes (trace s) @ new
     \<and> sorted (map ck_best_acc1 new)
     \<and> (\<forall>c\<in>set new. best_acc1 s \<le> ck_best_acc1 c \<and> ck_best_acc1 c \<le> best_acc1 s'))
   \<and> (\<exists>new. best_acc1 s \<le> best_acc1 (fold (imagenet_epoch env) es s)
     \<and> best_writes (trace (fold (imagenet_epoch env) es s)) = best_writes (trace s) @ new
     \<and> sorted (map ck_best_acc1 new)
     \<and> (\<forall>c\<in>set new. best_acc1 s \<le> ck_best_acc1 c
           \<and> ck_best_acc1 c \<le> best_acc1 (fold (imagenet_epoch env) es s)))"
  using mnist_loop_best [of env es s] imagenet_loop_best [of s env es] by blast

theorem best_metric_monotone_witness:
  "\<exists>s' new. for_each (mnist_epoch demo_env) [0, 1] demo_worker = Inr s'
     \<and> 0 \<le> best_acc1 s'
     \<and> best_writes (trace s') = new
     \<and> sorted (map ck_best_acc1 new)"
  using best_metric_monotone [of demo_env "[0, 1]" demo_worker]
  by auto

text \<open>
  C4. In every epoch, \<^verbatim>\<open>is_best\<close> is true if and only if that epoch's validation accuracy
  is strictly greater than the best metric tracked before it, so that an accuracy equal to
  the current best is not marked best; the tracked best becomes the maximum of the two.
  The flag is read off the call of \<^verbatim>\<open>save_checkpoint\<close>, which the ImageNet worker makes
  only with a writer. Two validations yielding 70 and then 68 give \<^verbatim>\<open>is_best\<close> true and
  then false, with 70 recorded both times; a third validation yielding 70 again is not
  best either.
\<close>

theorem is_best_strictly_greater:
  "(\<exists>s'. mnist_epoch env e s = Inr s'
      \<and> saves (trace s') = saves (trace s) @
           [(snapshot e s', best_acc1 s < val_acc1 env (dnq_steps s') (model s'), mnist_prefix s)]
      \<and> best_acc1 s' = max (val_acc1 env (dnq_steps s') (model s')) (best_acc1 s))
   \<and> saves (trace (imagenet_epoch env e s)) = saves (trace s) @
        (if has_writer s
         then [(snapshot e (imagenet_epoch env e s),
                best_acc1 s < val_acc1 env (dnq_steps (imagenet_epoch env e s))
                                 (model (imagenet_epoch env e s)),
                imagenet_prefix s)]
         else [])
   \<and> best_acc1 (imagenet_epoch env e s) =
        max (val_acc1 env (dnq_steps (imagenet_epoch env e s)) (model (imagenet_epoch env e s)))
            (best_acc1 s)
   \<and> observe saved_flags (mnist_main_worker demo_env demo_worker)
        = Inr [(True, 70), (False, 70)]
   \<and> observe saved_flags (mnist_main_worker demo_env (demo_worker\<lparr>epochs := 3\<rparr>))
        = Inr [(True, 70), (False, 70), (False, 70)]"
proof (intro conjI)
  obtain s' where s': "mnist_epoch env e s = Inr s'"
    using mnist_epoch_total by blast
  then show "\<exists>s'. mnist_epoch env e s = Inr s'
      \<and> saves (trace s') = saves (trace s) @
           [(snapshot e s', best_acc1 s < val_acc1 env (dnq_steps s') (model s'), mnist_prefix s)]
      \<and> best_acc1 s' = max (val_acc1 env (dnq_steps s') (model s')) (best_acc1 s)"
    by (simp add: mnist_epoch_trace [OF s'] mnist_epoch_fields(5) [OF s'])
  show "saves (trace (imagenet_epoch env e s)) = saves (trace s) @
        (if has_writer s
         then [(snapshot e (imagenet_epoch env e s),
                best_acc1 s < val_acc1 env (dnq_steps (imagenet_epoch env e s))
                                 (model (imagenet_epoch env e s)),
                imagenet_prefix s)]
         else [])"
    by (simp add: imagenet_epoch_saves)
  show "best_acc1 (imagenet_epoch env e s) =
        max (val_acc1 env (dnq_steps (imagenet_epoch env e s)) (model (imagenet_epoch env e s)))
            (best_acc1 s)"
    using imagenet_epoch_best [of env e s] by simp
  show "observe saved_flags (mnist_main_worker demo_env demo_worker)
        = Inr [(True, 70), (False, 70)]"
    by code_simp
  show "observe saved_flags (mnist_main_worker demo_env (demo_worker\<lparr>epochs := 3\<rparr>))
        = Inr [(True, 70), (False, 70), (False, 70)]"
    by code_simp
qed

theorem is_best_strictly_greater_witness:
  "\<exists>s'. mnist_epoch demo_env 0 demo_worker = Inr s'
      \<and> saves (trace s') =
           [(snapshot 0 s', 0 < val_acc1 demo_env (dnq_steps s') (model s'),
             mnist_prefix demo_worker)]"
  using is_best_strictly_greater [of demo_env 0 demo_worker]
  by auto

text \<open>
  C5, as stated, fails. \<^verbatim>\<open>save_checkpoint\<close> opens the final name itself for writing: a
  process that stops after the first disk step leaves a partial file under the name of
  the latest checkpoint, where a complete checkpoint was before; one that stops after
  the third step leaves a partial file under the name of the best checkpoint.
\<close>

theorem atomic_write_counterexample:
  "demo_disk ''run_checkpoint.pth.tar'' = Some (Checkpoint demo_checkpoint)
   \<and> file_after (take 1 (save_checkpoint demo_next_checkpoint True ''run_'' default_filename))
        demo_disk ''run_checkpoint.pth.tar'' = Inr (Some Torn)
   \<and> file_after (take 3 (save_checkpoint demo_next_checkpoint True ''run_'' default_filename))
        demo_disk ''run_best.pth.tar'' = Inr (Some Torn)"
  by (simp add: demo_disk_def file_after_def save_checkpoint_def torch_save_def copyfile_def
      default_filename_def)

text \<open>
  C5, amended. A checkpoint is written in place: \<^verbatim>\<open>save_checkpoint\<close> opens no other names
  than the two final ones (no temporary file, no rename). A process that stops after \<open>k\<close>
  of its disk steps leaves, under the name of the latest checkpoint, the old file if \<open>k\<close>
  is 0, a partial file if \<open>k\<close> is 1, and the complete new record from then on; under the
  name of the best checkpoint, when \<^verbatim>\<open>is_best\<close> is true, the old file up to \<open>k = 2\<close>, a partial
  file if \<open>k\<close> is 3 and the complete new record from then on; and every other file as it
  was.
\<close>

theorem write_in_place:
  "\<exists>fs'. run_ops (take k (save_checkpoint state is_best prefix default_filename)) fs = Inr fs'
     \<and> set (written (save_checkpoint state is_best prefix default_filename))
         \<subseteq> {prefix @ default_filename, prefix @ ''best.pth.tar''}
     \<and> (\<forall>p. p \<noteq> prefix @ default_filename \<and> p \<noteq> prefix @ ''best.pth.tar'' \<longrightarrow> fs' p = fs p)
     \<and> fs' (prefix @ default_filename) =
         (if k = 0 then fs (prefix @ default_filename)
          else if k = 1 then Some Torn else Some (Checkpoint state))
     \<and> fs' (prefix @ ''best.pth.tar'') =
         (if \<not> is_best \<or> k \<le> 2 then fs (prefix @ ''best.pth.tar'')
          else if k = 3 then Some Torn else Some (Checkpoint state))"
proof -
  have names: "prefix @ ''best.pth.tar'' \<noteq> prefix @ default_filename"
    by (simp add: default_filename_def)
  consider "k = 0" | "k = Suc 0" | "k = Suc (Suc 0)" | "k = Suc (Suc (Suc 0))"
    | j where "k = Suc (Suc (Suc (Suc j)))"
    by (metis not0_implies_Suc)
  then show ?thesis
  proof cases
    case 1
    then show ?thesis
      by (auto simp: written_save_checkpoint)
  next
    case 2
    then show ?thesis
      using names
      by (auto simp: written_save_checkpoint save_checkpoint_def torch_save_def copyfile_def)
  next
    case 3
    then show ?thesis
      using names
      by (auto simp: written_save_checkpoint save_checkpoint_def torch_save_def copyfile_def)
  next
    case 4
    then show ?thesis
      using names
      by (auto simp: written_save_checkpoint save_checkpoint_def torch_save_def copyfile_def
          numeral_3_eq_3)
  next
    case 5
    then show ?thesis
      using names
      by (auto simp: written_save_checkpoint save_checkpoint_def torch_save_def copyfile_def)
  qed
qed

theorem write_in_place_witness:
  "\<exists>fs'. run_ops (take 1 (save_checkpoint demo_next_checkpoint True ''run_'' default_filename))
            demo_disk = Inr fs'
     \<and> fs' ''run_checkpoint.pth.tar'' = Some Torn
     \<and> fs' ''run_best.pth.tar'' = demo_disk ''run_best.pth.tar''"
  using write_in_place [of 1 demo_next_checkpoint True "''run_''" demo_disk]
  by (auto simp: default_filename_def)




text \<open>
  C7. At every epoch end \<^verbatim>\<open>save_checkpoint\<close> writes the latest record unconditionally, and
  writes a best record, under a different file name, if and only if \<^verbatim>\<open>is_best\<close> is true;
  the best file then has the content of the latest file. First for \<^verbatim>\<open>save_checkpoint\<close>
  with its default file name, on any disk; then for the call at the end of an epoch of the
  MNIST worker, which always takes place.
\<close>

theorem save_checkpoint_latest_and_best:
  "(\<exists>fs'. run_ops (save_checkpoint state is_best prefix default_filename) fs = Inr fs'
     \<and> prefix @ default_filename
         \<in> set (written (save_checkpoint state is_best prefix default_filename))
     \<and> fs' (prefix @ default_filename) = Some (Checkpoint state)
     \<and> prefix @ ''best.pth.tar'' \<noteq> prefix @ default_filename
     \<and> (prefix @ ''best.pth.tar''
           \<in> set (written (save_checkpoint state is_best prefix default_filename))
         \<longleftrightarrow> is_best)
     \<and> fs' (prefix @ ''best.pth.tar'') =
         (if is_best then fs' (prefix @ default_filename) else fs (prefix @ ''best.pth.tar'')))
   \<and> (\<exists>s'. mnist_epoch env e s = Inr s'
     \<and> files s' (mnist_prefix s @ default_filename) = Some (Checkpoint (snapshot e s'))
     \<and> files s' (mnist_prefix s @ ''best.pth.tar'') =
         (if best_acc1 s < val_acc1 env (dnq_steps s') (model s')
          then files s' (mnist_prefix s @ default_filename)
          else files s (mnist_prefix s @ ''best.pth.tar'')))"
proof
  show "\<exists>fs'. run_ops (save_checkpoint state is_best prefix default_filename) fs = Inr fs'
     \<and> prefix @ default_filename
         \<in> set (written (save_checkpoint state is_best prefix default_filename))
     \<and> fs' (prefix @ default_filename) = Some (Checkpoint state)
     \<and> prefix @ ''best.pth.tar'' \<noteq> prefix @ default_filename
     \<and> (prefix @ ''best.pth.tar''
           \<in> set (written (save_checkpoint state is_best prefix default_filename))
         \<longleftrightarrow> is_best)
     \<and> fs' (prefix @ ''best.pth.tar'') =
         (if is_best then fs' (prefix @ default_filename) else fs (prefix @ ''best.pth.tar''))"
    by (simp add: run_save_checkpoint written_save_checkpoint) (simp add: default_filename_def)
next
  obtain s' where s': "mnist_epoch env e s = Inr s'"
    using mnist_epoch_total by blast
  have "mnist_prefix s @ ''best.pth.tar'' \<noteq> mnist_prefix s @ default_filename"
    by (simp add: default_filename_def)
  then show "\<exists>s'. mnist_epoch env e s = Inr s'
     \<and> files s' (mnist_prefix s @ default_filename) = Some (Checkpoint (snapshot e s'))
     \<and> files s' (mnist_prefix s @ ''best.pth.tar'') =
         (if best_acc1 s < val_acc1 env (dnq_steps s') (model s')
          then files s' (mnist_prefix s @ default_filename)
          else files s (mnist_prefix s @ ''best.pth.tar''))"
    using s' by (simp add: mnist_epoch_files [OF s'])
qed

theorem save_checkpoint_latest_and_best_witness:
  "(\<exists>fs'. run_ops (save_checkpoint (snapshot 0 demo_worker) True ''run_'' default_filename)
             Map.empty = Inr fs'
      \<and> fs' ''run_checkpoint.pth.tar'' = Some (Checkpoint (snapshot 0 demo_worker))
      \<and> fs' ''run_best.pth.tar'' = fs' ''run_checkpoint.pth.tar'')
   \<and> (\<exists>s'. mnist_epoch demo_env 0 demo_worker = Inr s'
      \<and> files s' (mnist_prefix demo_worker @ default_filename)
          = Some (Checkpoint (snapshot 0 s')))"
  using save_checkpoint_latest_and_best
    [of "snapshot 0 demo_worker" True "''run_''" Map.empty demo_env 0 demo_worker]
  by (auto simp: default_filename_def)

text \<open>
  C8, as stated, fails in its second half. In early-stop mode over two batches
  \<^verbatim>\<open>validate\<close> returns 50, the accuracy of the first batch, where the full pass returns 75;
  and what it returns is the very value a full pass over the first batch alone returns: a
  plain number that carries no mark. The notice is printed, nothing more.
\<close>

theorem early_stop_counterexample:
  "validate [demo_batch1, demo_batch2] True 50
     = Inr ([Forward 0, Print EarlyStopEvaluation, Print (ValAcc1 (Some 50))], Some 50)
   \<and> returned_metric (validate [demo_batch1, demo_batch2] False 50) = Inr (Some 75)
   \<and> returned_metric (validate [demo_batch1] False 50) = Inr (Some 50)"
  by (simp add: validate_def returned_metric_def demo_batch1_def demo_batch2_def
      new_meter_def meter_add_def meter_mean_def)

text \<open>
  C8, amended. In early-stop mode over a loader that is not empty, the validation pass
  makes the forward pass of the first batch and no other, prints the early-stop notice,
  and returns the mean of that batch, which is the accuracy of the batch when it holds at
  least one image, as its ordinary result: the value that a full pass over that batch
  alone returns.
\<close>

theorem early_stop_after_first_batch:
  "validate (b # bs) True print_freq =
     Inr ([Forward 0, Print EarlyStopEvaluation,
           Print (ValAcc1 (meter_mean (meter_add (b_acc b * real (b_size b)) (b_size b) new_meter)))],
          meter_mean (meter_add (b_acc b * real (b_size b)) (b_size b) new_meter))
   \<and> (0 < b_size b \<longrightarrow>
        meter_mean (meter_add (b_acc b * real (b_size b)) (b_size b) new_meter) = Some (b_acc b))
   \<and> (print_freq \<noteq> 0 \<longrightarrow>
        returned_metric (validate (b # bs) True print_freq) =
        returned_metric (validate [b] False print_freq))"
  by (simp add: validate_def returned_metric_def new_meter_def meter_add_def meter_mean_def
      Let_def)

theorem early_stop_after_first_batch_witness:
  "validate [demo_batch1, demo_batch2] True 50 =
     Inr ([Forward 0, Print EarlyStopEvaluation, Print (ValAcc1 (Some 50))], Some 50)
   \<and> returned_metric (validate [demo_batch1, demo_batch2] True 50) =
       returned_metric (validate [demo_batch1] False 50)"
proof -
  note fact = early_stop_after_first_batch [of demo_batch1 "[demo_batch2]" 50]
  have size: "0 < b_size demo_batch1" and acc: "b_acc demo_batch1 = 50"
    by (simp_all add: demo_batch1_def)
  have mean: "meter_mean (meter_add (b_acc demo_batch1 * real (b_size demo_batch1))
      (b_size demo_batch1) new_meter) = Some 50"
    using fact size acc by simp
  have first: "validate [demo_batch1, demo_batch2] True 50 =
     Inr ([Forward 0, Print EarlyStopEvaluation, Print (ValAcc1 (Some 50))], Some 50)"
    using fact by (simp only: mean)
  have second: "returned_metric (validate [demo_batch1, demo_batch2] True 50) =
       returned_metric (validate [demo_batch1] False 50)"
    using conjunct2 [OF conjunct2 [OF fact]] by simp
  show ?thesis
    by (rule conjI [OF first second])
qed

text \<open>
  C9, as stated, fails: with \<^verbatim>\<open>--evaluate\<close> and \<^verbatim>\<open>--gen-map\<close> together, either worker writes
  the key map and returns before it reaches the evaluation, so that it runs no validation
  pass at all.
\<close>

theorem evaluate_only_counterexample:
  "evaluate demo_evaluate_gen_map
   \<and> observe core_calls (mnist_main_worker demo_env demo_evaluate_gen_map) = Inr []
   \<and> observe core_calls (imagenet_main_worker demo_env demo_evaluate_gen_map) = Inr []"
proof (intro conjI)
  show "evaluate demo_evaluate_gen_map"
    by (simp add: demo_evaluate_gen_map_def)
  show "observe core_calls (mnist_main_worker demo_env demo_evaluate_gen_map) = Inr []"
    by code_simp
  show "observe core_calls (imagenet_main_worker demo_env demo_evaluate_gen_map) = Inr []"
    by code_simp
qed

text \<open>
  C9, amended. Whenever the evaluate flag is set and the worker returns, it has made no
  training call, advanced no schedule and called \<^verbatim>\<open>save_checkpoint\<close> not at all, and no
  checkpoint record has been put on the disk; it has run exactly one validation pass,
  unless the key map was requested (or, in the MNIST worker, the architecture is unknown),
  in which case it has run none.
\<close>

theorem evaluate_only_frame:
  assumes "evaluate s"
  shows "(\<forall>s'. mnist_main_worker env s = Inr s' \<longrightarrow>
        core (trace s') =
          core (trace s) @
          (if gen_map s \<or> mnist_models env (arch s) = None then [] else [Validate])
        \<and> (\<forall>p c. files s' p = Some (Checkpoint c) \<longrightarrow> files s p = Some (Checkpoint c)))
     \<and> (\<forall>s'. imagenet_main_worker env s = Inr s' \<longrightarrow>
        core (trace s') = core (trace s) @ (if gen_map s then [] else [Validate])
        \<and> files s' = files s)"
proof (intro conjI allI impI)
  fix s'
  assume run: "mnist_main_worker env s = Inr s'"
  have "core (trace s') =
          core (trace s) @
          (if gen_map s \<or> mnist_models env (arch s) = None then [] else [Validate])
        \<and> (\<forall>p c. files s' p = Some (Checkpoint c) \<longrightarrow> files s p = Some (Checkpoint c))"
  proof (cases "gen_map s")
    case True
    then have "s' = emit (Print (NotSupported (arch s))) (s\<lparr>qw := - 1, qa := - 1\<rparr>)
        \<or> (\<exists>m. s' = emit GenKeyMap (s\<lparr>qw := - 1, qa := - 1, model := m\<rparr>))"
      using run
      by (cases "mnist_models env (arch s)")
         (auto simp: mnist_main_worker_gen_map split: if_splits)
    then show ?thesis
      using True by (auto simp: is_core_def)
  next
    case False
    show ?thesis
    proof (cases "mnist_models env (arch s)")
      case None
      then have "s' = emit (Print (NotSupported (arch s))) s"
        using run False by (simp add: mnist_main_worker_unknown)
      then show ?thesis
        using False None by (simp add: is_core_def)
    next
      case (Some m)
      define t where "t = s\<lparr>model := m, optim := init_optim env\<rparr>"
      have whole: "and_then (resume_block t) (\<lambda>s2.
           and_then (resume_after_block (fusion_block env s2)) (\<lambda>s3.
             if evaluate s3
             then Inr (emit Validate ((extract_block s3)\<lparr>lr_steps := 0, dnq_steps := 0\<rparr>))
             else mnist_training env ((extract_block s3)\<lparr>lr_steps := 0, dnq_steps := 0\<rparr>)))
           = Inr s'"
        using run by (simp add: mnist_main_worker_known [OF False Some] t_def)
      obtain s2 where s2: "resume_block t = Inr s2"
        and after2: "and_then (resume_after_block (fusion_block env s2)) (\<lambda>s3.
             if evaluate s3
             then Inr (emit Validate ((extract_block s3)\<lparr>lr_steps := 0, dnq_steps := 0\<rparr>))
             else mnist_training env ((extract_block s3)\<lparr>lr_steps := 0, dnq_steps := 0\<rparr>))
           = Inr s'"
        using whole by (rule and_then_Inr)
      obtain s3 where s3: "resume_after_block (fusion_block env s2) = Inr s3"
        and after3: "(if evaluate s3
             then Inr (emit Validate ((extract_block s3)\<lparr>lr_steps := 0, dnq_steps := 0\<rparr>))
             else mnist_training env ((extract_block s3)\<lparr>lr_steps := 0, dnq_steps := 0\<rparr>))
           = Inr s'"
        using after2 by (rule and_then_Inr)
      have ev2: "evaluate s2"
        using resume_block_frame(2) [OF s2] assms by (simp add: t_def)
      have ev3: "evaluate s3"
        using resume_after_block_frame(2) [OF s3] ev2 by simp
      have core2: "core (trace s2) = core (trace s)"
        using resume_block_frame(1) [OF s2] by (simp add: t_def)
      have core3: "core (trace s3) = core (trace s)"
        using resume_after_block_frame(1) [OF s3] core2 by simp
      have files3: "files s3 = files s2"
        using resume_after_block_frame(4) [OF s3] by simp
      have files2: "\<forall>p c. files s2 p = Some (Checkpoint c) \<longrightarrow> files s p = Some (Checkpoint c)"
        using resume_block_frame(10) [OF s2] by (simp add: t_def)
      have "s' = emit Validate ((extract_block s3)\<lparr>lr_steps := 0, dnq_steps := 0\<rparr>)"
        using after3 ev3 by simp
      then show ?thesis
        using core3 files3 files2 False Some by (simp add: is_core_def)
    qed
  qed
  then show "core (trace s') =
          core (trace s) @
          (if gen_map s \<or> mnist_models env (arch s) = None then [] else [Validate])"
    and "\<And>p c. files s' p = Some (Checkpoint c) \<Longrightarrow> files s p = Some (Checkpoint c)"
    by simp_all
next
  fix s'
  assume run: "imagenet_main_worker env s = Inr s'"
  define a where "a = (if distributed s then emit InitProcessGroup s else s)"
  define b where "b = (if gen_map a then a\<lparr>qw := - 1, qa := - 1\<rparr> else a)"
  have b: "core (trace b) = core (trace s)" "files b = files s" "evaluate b"
    "gen_map b = gen_map s"
    using assms by (simp_all add: a_def b_def is_core_def)
  have run': "and_then (create_model env b) (\<lambda>s2.
           if gen_map s2 then Inr (emit GenKeyMap s2)
           else if evaluate (prepare env s2) then Inr (emit Validate (prepare env s2))
           else Inr (imagenet_training env (prepare env s2))) = Inr s'"
    using run unfolding imagenet_main_worker_def Let_def a_def b_def .
  obtain s2 where s2: "create_model env b = Inr s2"
    and rest: "(if gen_map s2 then Inr (emit GenKeyMap s2)
           else if evaluate (prepare env s2) then Inr (emit Validate (prepare env s2))
           else Inr (imagenet_training env (prepare env s2))) = (Inr s' :: error + worker)"
    using run' by (rule and_then_Inr)
  have s2_frame: "core (trace s2) = core (trace s)" "files s2 = files s" "evaluate s2"
    "gen_map s2 = gen_map s"
    using create_model_frame [OF s2] b by simp_all
  have "core (trace s') = core (trace s) @ (if gen_map s then [] else [Validate])
        \<and> files s' = files s"
  proof (cases "gen_map s")
    case True
    then have "s' = emit GenKeyMap s2"
      using rest s2_frame by simp
    then show ?thesis
      using s2_frame True by (simp add: is_core_def)
  next
    case False
    then have "s' = emit Validate (prepare env s2)"
      using rest s2_frame by simp
    then show ?thesis
      using s2_frame False by (simp add: is_core_def)
  qed
  then show "core (trace s') = core (trace s) @ (if gen_map s then [] else [Validate])"
    and "files s' = files s"
    by simp_all
qed

theorem evaluate_only_frame_witness:
  "observe core_calls (mnist_main_worker demo_env demo_evaluate) = Inr [Validate]
   \<and> observe core_calls (imagenet_main_worker demo_env demo_evaluate) = Inr [Validate]"
proof -
  have ev: "evaluate demo_evaluate"
    by (simp add: demo_evaluate_def)
  have facts: "trace demo_evaluate = []" "\<not> gen_map demo_evaluate"
    "mnist_models demo_env (arch demo_evaluate) \<noteq> None"
    by (simp_all add: demo_evaluate_def demo_worker_def demo_env_def)
  have "returns (mnist_main_worker demo_env demo_evaluate)"
    by code_simp
  then obtain s1 where s1: "mnist_main_worker demo_env demo_evaluate = Inr s1"
    by (cases "mnist_main_worker demo_env demo_evaluate") (simp_all add: returns_def)
  have "returns (imagenet_main_worker demo_env demo_evaluate)"
    by code_simp
  then obtain s2 where s2: "imagenet_main_worker demo_env demo_evaluate = Inr s2"
    by (cases "imagenet_main_worker demo_env demo_evaluate") (simp_all add: returns_def)
  have "core (trace s1) = [Validate]" and "core (trace s2) = [Validate]"
    using evaluate_only_frame [OF ev, of demo_env] s1 s2 facts by auto
  then show ?thesis
    by (simp add: observe_def core_calls_def s1 s2)
qed

text \<open>
  C10. In the ImageNet worker the checkpoint is saved only when the writer exists. With
  no writer, an epoch trains, steps both schedulers, validates and updates the tracked
  best metric, and calls \<^verbatim>\<open>save_checkpoint\<close> not at all; so does the whole training loop,
  which trains every epoch from \<^verbatim>\<open>start_epoch\<close> on; and a worker whose
  \<^verbatim>\<open>get_summary_writer\<close> returns \<^verbatim>\<open>None\<close> never calls \<^verbatim>\<open>save_checkpoint\<close> and leaves the disk
  as it found it.
\<close>

theorem no_writer_no_checkpoint:
  "(\<not> has_writer s \<longrightarrow>
      core (trace (imagenet_epoch env e s)) =
        core (trace s) @ [Train e (lr_steps s) (dnq_steps s), SchedulerStep, DnqStep, Validate]
      \<and> files (imagenet_epoch env e s) = files s
      \<and> best_acc1 (imagenet_epoch env e s) =
          max (val_acc1 env (Suc (dnq_steps s)) (model (imagenet_epoch env e s))) (best_acc1 s)
      \<and> saves (trace (imagenet_training env s)) = saves (trace s)
      \<and> files (imagenet_training env s) = files s
      \<and> trained_epochs (trace (imagenet_training env s)) =
          trained_epochs (trace s) @ py_range (start_epoch s) (epochs s))
   \<and> (\<not> get_summary_writer env \<longrightarrow>
      (\<forall>s'. imagenet_main_worker env s = Inr s' \<longrightarrow>
         saves (trace s') = saves (trace s) \<and> files s' = files s))"
proof (intro conjI impI allI)
  assume nw: "\<not> has_writer s"
  show "core (trace (imagenet_epoch env e s)) =
        core (trace s) @ [Train e (lr_steps s) (dnq_steps s), SchedulerStep, DnqStep, Validate]"
    using nw by (simp add: imagenet_epoch_core)
  show "files (imagenet_epoch env e s) = files s"
    by simp
  show "best_acc1 (imagenet_epoch env e s) =
          max (val_acc1 env (Suc (dnq_steps s)) (model (imagenet_epoch env e s))) (best_acc1 s)"
    by (rule imagenet_epoch_best)
  show "saves (trace (imagenet_training env s)) = saves (trace s)"
    using nw by (simp add: imagenet_training_saves fold_imagenet_epoch_saves)
  show "files (imagenet_training env s) = files s"
    by simp
  show "trained_epochs (trace (imagenet_training env s)) =
          trained_epochs (trace s) @ py_range (start_epoch s) (epochs s)"
    by (rule imagenet_training_epochs)
next
  fix s'
  assume nw: "\<not> get_summary_writer env" and run: "imagenet_main_worker env s = Inr s'"
  define a where "a = (if distributed s then emit InitProcessGroup s else s)"
  define b where "b = (if gen_map a then a\<lparr>qw := - 1, qa := - 1\<rparr> else a)"
  have b: "saves (trace b) = saves (trace s)" "files b = files s"
    by (simp_all add: a_def b_def)
  have run': "and_then (create_model env b) (\<lambda>s2.
           if gen_map s2 then Inr (emit GenKeyMap s2)
           else if evaluate (prepare env s2) then Inr (emit Validate (prepare env s2))
           else Inr (imagenet_training env (prepare env s2))) = Inr s'"
    using run unfolding imagenet_main_worker_def Let_def a_def b_def .
  then obtain s2 where s2: "create_model env b = Inr s2"
    by (cases "create_model env b") (simp_all add: and_then_def)
  have s2_frame: "saves (trace s2) = saves (trace s)" "files s2 = files s"
    using create_model_frame(1,2) [OF s2] b by simp_all
  have rest: "(if gen_map s2 then Inr (emit GenKeyMap s2)
           else if evaluate (prepare env s2) then Inr (emit Validate (prepare env s2))
           else Inr (imagenet_training env (prepare env s2))) = (Inr s' :: error + worker)"
    using run' by (simp add: and_then_def s2)
  have nw3: "\<not> has_writer (prepare env s2)"
    using nw by simp
  have "saves (trace s') = saves (trace s) \<and> files s' = files s"
  proof (cases "gen_map s2")
    case True
    then have "s' = emit GenKeyMap s2"
      using rest by simp
    then show ?thesis
      using s2_frame by simp
  next
    case False
    show ?thesis
    proof (cases "evaluate s2")
      case True
      then have "s' = emit Validate (prepare env s2)"
        using rest \<open>\<not> gen_map s2\<close> by simp
      then show ?thesis
        using s2_frame by simp
    next
      case False
      then have "s' = imagenet_training env (prepare env s2)"
        using rest \<open>\<not> gen_map s2\<close> by simp
      then show ?thesis
        using s2_frame nw3
        by (simp add: imagenet_training_saves fold_imagenet_epoch_saves)
    qed
  qed
  then show "saves (trace s') = saves (trace s)" and "files s' = files s"
    by simp_all
qed

theorem no_writer_no_checkpoint_witness:
  "core (trace (imagenet_epoch demo_env 0 demo_worker)) =
      [Train 0 0 0, SchedulerStep, DnqStep, Validate]
   \<and> saves (trace (imagenet_training demo_env demo_worker)) = []
   \<and> trained_epochs (trace (imagenet_training demo_env demo_worker)) = [0, 1]"
  using no_writer_no_checkpoint [of demo_worker demo_env 0]
  by (simp add: py_range_demo)

end
